theory Spec2Isabelle
  imports Complex_Main "HOL-Library.AList"
begin

section \<open>Numbers, clock and configuration\<close>

text \<open>
  JavaScript numbers are modelled as reals (positions, velocities, sizes, timestamps) and
  as integers where the program only ever stores whole numbers (score, lives, level,
  combo, multiplier).  \<open>Date.now()\<close> is an input: every function that reads the clock
  takes the time \<open>now\<close> as a parameter, and all reads inside one call see the same
  value.  \<open>Math.random()\<close> is an input as well: a stream \<open>rnd\<close> of draws, read at the
  position counted in the game state.
\<close>

text \<open>\<open>a || b\<close> on a number \<open>a\<close>: zero is falsy, so the default \<open>b\<close> is taken.\<close>

definition js_or_num :: "real \<Rightarrow> real \<Rightarrow> real" where
  "js_or_num a b = (if a = 0 then b else a)"

text \<open>The constants of \<open>GameConfig\<close> that the entity classes read.\<close>

definition BALL_RADIUS :: real where "BALL_RADIUS = 8"
definition BALL_SPEED :: real where "BALL_SPEED = 3"
definition PADDLE_WIDTH :: real where "PADDLE_WIDTH = 100"
definition PADDLE_HEIGHT :: real where "PADDLE_HEIGHT = 15"
definition PADDLE_SPEED :: real where "PADDLE_SPEED = 8"
definition TRAIL_LENGTH :: nat where "TRAIL_LENGTH = 5"

definition WIDE_PADDLE :: string where "WIDE_PADDLE = ''wide''"
definition MAGNETIC :: string where "MAGNETIC = ''magnetic''"
definition PIERCE :: string where "PIERCE = ''pierce''"

section \<open>Vector2D\<close>

record Vector2D =
  vec_x :: real
  vec_y :: real

definition vec :: "real \<Rightarrow> real \<Rightarrow> Vector2D" where
  "vec a b = \<lparr>vec_x = a, vec_y = b\<rparr>"

definition vec_set :: "real \<Rightarrow> real \<Rightarrow> Vector2D \<Rightarrow> Vector2D" where
  "vec_set a b v = v\<lparr>vec_x := a, vec_y := b\<rparr>"

definition vec_add :: "Vector2D \<Rightarrow> Vector2D \<Rightarrow> Vector2D" where
  "vec_add w v = v\<lparr>vec_x := vec_x v + vec_x w, vec_y := vec_y v + vec_y w\<rparr>"

definition magnitude :: "Vector2D \<Rightarrow> real" where
  "magnitude v = sqrt (vec_x v * vec_x v + vec_y v * vec_y v)"

text \<open>\<open>toObject\<close> returns a fresh plain object with the two coordinates.\<close>

definition toObject :: "Vector2D \<Rightarrow> Vector2D" where
  "toObject v = \<lparr>vec_x = vec_x v, vec_y = vec_y v\<rparr>"

section \<open>The Ball entity\<close>

record Trail =
  trail_x :: real
  trail_y :: real
  trail_time :: real
  trail_life :: real

text \<open>
  \<open>powerUps\<close> is a JavaScript object from power-up type to expiry time: an association
  list in insertion order, which is the order \<open>Object.keys\<close> walks it in.
\<close>

record Ball =
  position :: Vector2D
  velocity :: Vector2D
  radius :: real
  powerUps :: "(string \<times> real) list"
  trails :: "Trail list"
  maxTrails :: nat
  glowEffect :: bool
  energyLevel :: real
  lastTrailTime :: real
  trailInterval :: real

definition new_Ball :: "real \<Rightarrow> real \<Rightarrow> Ball" where
  "new_Ball a b =
     \<lparr>position = vec a b, velocity = vec 0 0, radius = BALL_RADIUS, powerUps = [],
      trails = [], maxTrails = TRAIL_LENGTH, glowEffect = False, energyLevel = 1,
      lastTrailTime = 0, trailInterval = 16\<rparr>"

definition getSpeed :: "Ball \<Rightarrow> real" where
  "getSpeed bl = magnitude (velocity bl)"

record BallBounds =
  b_left :: real
  b_right :: real
  b_top :: real
  b_bottom :: real
  b_centerX :: real
  b_centerY :: real
  b_radius :: real

definition getBounds :: "Ball \<Rightarrow> BallBounds" where
  "getBounds bl =
     \<lparr>b_left = vec_x (position bl) - radius bl,
      b_right = vec_x (position bl) + radius bl,
      b_top = vec_y (position bl) - radius bl,
      b_bottom = vec_y (position bl) + radius bl,
      b_centerX = vec_x (position bl),
      b_centerY = vec_y (position bl),
      b_radius = radius bl\<rparr>"

record CanvasBounds =
  bounds_width :: real
  bounds_height :: real

text \<open>
  \<open>_handleBoundaryCollisions\<close>: the bounds of the ball are read once, before anything is
  changed; left and right are an \<open>if\<close>/\<open>else if\<close>, the top wall a separate \<open>if\<close>; the
  bottom is not handled.
\<close>

definition handleBoundaryCollisions :: "CanvasBounds \<Rightarrow> Ball \<Rightarrow> Ball" where
  "handleBoundaryCollisions bounds bl =
     (let ballBounds = getBounds bl;
          bl1 = (if b_left ballBounds \<le> 0
                 then bl\<lparr>position := (position bl)\<lparr>vec_x := radius bl\<rparr>,
                         velocity := (velocity bl)\<lparr>vec_x := \<bar>vec_x (velocity bl)\<bar>\<rparr>\<rparr>
                 else if b_right ballBounds \<ge> bounds_width bounds
                 then bl\<lparr>position := (position bl)\<lparr>vec_x := bounds_width bounds - radius bl\<rparr>,
                         velocity := (velocity bl)\<lparr>vec_x := - \<bar>vec_x (velocity bl)\<bar>\<rparr>\<rparr>
                 else bl)
      in if b_top ballBounds \<le> 0
         then bl1\<lparr>position := (position bl1)\<lparr>vec_y := radius bl1\<rparr>,
                  velocity := (velocity bl1)\<lparr>vec_y := \<bar>vec_y (velocity bl1)\<bar>\<rparr>\<rparr>
         else bl1)"

definition ball_removePowerUp :: "string \<Rightarrow> Ball \<Rightarrow> Ball" where
  "ball_removePowerUp ty bl =
     (let bl1 = bl\<lparr>powerUps := AList.delete ty (powerUps bl)\<rparr>
      in if ty = PIERCE then bl1\<lparr>glowEffect := False\<rparr> else bl1)"

text \<open>
  \<open>_updatePowerUps\<close> walks the keys present when the call starts and removes every
  entry whose expiry time has passed.
\<close>

definition ball_updatePowerUps :: "real \<Rightarrow> Ball \<Rightarrow> Ball" where
  "ball_updatePowerUps now bl =
     fold (\<lambda>ty b. case map_of (powerUps b) ty of
                     Some t \<Rightarrow> if t \<le> now then ball_removePowerUp ty b else b
                   | None \<Rightarrow> b)
          (map fst (powerUps bl)) bl"

definition updateTrails :: "real \<Rightarrow> Ball \<Rightarrow> Ball" where
  "updateTrails now bl =
     (let bl1 = (if now - lastTrailTime bl > trailInterval bl
                 then (let ts = trails bl @ [\<lparr>trail_x = vec_x (position bl),
                                             trail_y = vec_y (position bl),
                                             trail_time = now, trail_life = 1\<rparr>]
                       in bl\<lparr>trails := (if length ts > maxTrails bl then tl ts else ts),
                             lastTrailTime := now\<rparr>)
                 else bl);
          aged = map (\<lambda>t. t\<lparr>trail_life := max 0 (1 - (now - trail_time t) / 500)\<rparr>)
                     (trails bl1)
      in bl1\<lparr>trails := filter (\<lambda>t. trail_life t > 0) aged\<rparr>)"

definition updateVisualEffects :: "Ball \<Rightarrow> Ball" where
  "updateVisualEffects bl = bl\<lparr>energyLevel := min 2 (getSpeed bl / BALL_SPEED)\<rparr>"

text \<open>\<open>Ball.update(deltaTime, canvasBounds)\<close>.\<close>

definition ballUpdate :: "real \<Rightarrow> CanvasBounds \<Rightarrow> real \<Rightarrow> Ball \<Rightarrow> Ball" where
  "ballUpdate deltaTime canvasBounds now bl =
     updateVisualEffects
       (updateTrails now
         (ball_updatePowerUps now
           (handleBoundaryCollisions canvasBounds
             (bl\<lparr>position := vec_add (vec (vec_x (velocity bl) * deltaTime)
                                           (vec_y (velocity bl) * deltaTime))
                                      (position bl)\<rparr>))))"

text \<open>The plain object that \<open>serialize\<close> returns and \<open>deserialize\<close> reads.\<close>

record BallData =
  data_position :: Vector2D
  data_velocity :: Vector2D
  data_radius :: real
  data_powerUps :: "(string \<times> real) list"
  data_energyLevel :: real

definition serialize :: "Ball \<Rightarrow> BallData" where
  "serialize bl =
     \<lparr>data_position = toObject (position bl),
      data_velocity = toObject (velocity bl),
      data_radius = radius bl,
      data_powerUps = powerUps bl,
      data_energyLevel = energyLevel bl\<rparr>"

text \<open>
  \<open>deserialize(data)\<close> writes into the receiving ball.  \<open>data.powerUps || {}\<close> keeps the
  object (an object is truthy); \<open>data.energyLevel || 1.0\<close> is the numeric default.
\<close>

definition deserialize :: "BallData \<Rightarrow> Ball \<Rightarrow> Ball" where
  "deserialize d bl =
     bl\<lparr>position := vec_set (vec_x (data_position d)) (vec_y (data_position d)) (position bl),
        velocity := vec_set (vec_x (data_velocity d)) (vec_y (data_velocity d)) (velocity bl),
        radius := data_radius d,
        powerUps := data_powerUps d,
        energyLevel := js_or_num (data_energyLevel d) 1\<rparr>"

section \<open>The Paddle entity\<close>

record GlowEffect =
  glow_type :: string
  glow_startTime :: real
  glow_duration :: real

record Paddle =
  paddle_position :: Vector2D
  paddle_velocity :: Vector2D
  width :: real
  height :: real
  baseWidth :: real
  speed :: real
  paddle_powerUps :: "(string \<times> real) list"
  aiEnabled :: bool
  aiStrength :: real
  targetX :: real
  magneticRange :: real
  magneticStrength :: real
  glowEffects :: "GlowEffect list"

definition new_Paddle :: "real \<Rightarrow> real \<Rightarrow> Paddle" where
  "new_Paddle a b =
     \<lparr>paddle_position = vec a b, paddle_velocity = vec 0 0, width = PADDLE_WIDTH,
      height = PADDLE_HEIGHT, baseWidth = PADDLE_WIDTH, speed = PADDLE_SPEED,
      paddle_powerUps = [], aiEnabled = False, aiStrength = 0.5, targetX = a,
      magneticRange = 0, magneticStrength = 0, glowEffects = []\<rparr>"






text \<open>\<open>Paddle.applyPowerUp(type, duration)\<close>: expiry entry, immediate effect, glow record.\<close>

definition paddle_applyPowerUp :: "string \<Rightarrow> real \<Rightarrow> real \<Rightarrow> Paddle \<Rightarrow> Paddle" where
  "paddle_applyPowerUp ty duration now p =
     (let p1 = p\<lparr>paddle_powerUps := AList.update ty (now + duration) (paddle_powerUps p)\<rparr>;
          p2 = (if ty = WIDE_PADDLE then p1\<lparr>width := baseWidth p1 * 1.5\<rparr>
                else if ty = MAGNETIC then p1\<lparr>magneticRange := 100, magneticStrength := 2\<rparr>
                else p1)
      in p2\<lparr>glowEffects := glowEffects p2 @
               [\<lparr>glow_type = ty, glow_startTime = now, glow_duration = duration\<rparr>]\<rparr>)"

definition paddle_removePowerUp :: "string \<Rightarrow> Paddle \<Rightarrow> Paddle" where
  "paddle_removePowerUp ty p =
     (let p1 = p\<lparr>paddle_powerUps := AList.delete ty (paddle_powerUps p)\<rparr>
      in if ty = WIDE_PADDLE then p1\<lparr>width := baseWidth p1\<rparr>
         else if ty = MAGNETIC then p1\<lparr>magneticRange := 0, magneticStrength := 0\<rparr>
         else p1)"

definition paddle_reset :: "real \<Rightarrow> real \<Rightarrow> Paddle \<Rightarrow> Paddle" where
  "paddle_reset a b p =
     p\<lparr>paddle_position := vec_set a b (paddle_position p),
       paddle_velocity := vec_set 0 0 (paddle_velocity p),
       width := baseWidth p, paddle_powerUps := [], glowEffects := [],
       magneticRange := 0, magneticStrength := 0, aiEnabled := False\<rparr>"


section \<open>The KnockoffArcade game: state\<close>

text \<open>
  The game keeps plain objects, not the entity classes above.  Ball objects are shared
  by reference between \<open>this.ball\<close>, the array \<open>this.balls\<close> and the cavity
  \<open>Set\<close>/\<open>Map\<close>s, so they live in a store \<open>heap\<close> addressed by references; \<open>nextRef\<close> is
  the next unused reference.  Particles, sounds and the DOM are not modelled: they are
  written by the update cycle and never read back by it.
\<close>

record GameBall =
  ball_x :: real
  ball_y :: real
  ball_radius :: real
  speedX :: real
  speedY :: real
  ball_powerUps :: "string \<rightharpoonup> real"

record GamePaddle =
  paddle_x :: real
  paddle_y :: real
  paddle_width :: real
  paddle_height :: real
  paddle_speed :: real
  gpaddle_powerUps :: "string \<rightharpoonup> real"

record Brick =
  brick_x :: real
  brick_y :: real
  brick_width :: real
  brick_height :: real
  visible :: bool
  hits :: int
  color :: string

record PowerUp =
  pu_x :: real
  pu_y :: real
  pu_width :: real
  pu_height :: real
  pu_type :: string
  pu_color :: string

record Game =
  canvas_width :: real
  canvas_height :: real
  gameState :: string
  score :: int
  lives :: int
  level :: int
  combo :: int
  multiplier :: int
  heap :: "nat \<Rightarrow> GameBall"
  nextRef :: nat
  ball :: nat
  balls :: "nat list"
  bricks :: "Brick list"
  game_powerUps :: "PowerUp list"
  paddle :: GamePaddle
  cavityBalls :: "nat set"
  cavityTimers :: "nat \<rightharpoonup> real"
  originalSpeeds :: "nat \<rightharpoonup> real \<times> real"
  draws :: nat

text \<open>\<open>for (let i = n - 1; i >= 0; i--) body(i)\<close>.\<close>

fun loop_down :: "(nat \<Rightarrow> 's \<Rightarrow> 's) \<Rightarrow> nat \<Rightarrow> 's \<Rightarrow> 's" where
  "loop_down body 0 s = s"
| "loop_down body (Suc i) s = loop_down body i (body i s)"

text \<open>\<open>xs.splice(i, 1)\<close>.\<close>

definition splice1 :: "nat \<Rightarrow> 'a list \<Rightarrow> 'a list" where
  "splice1 i xs = take i xs @ drop (Suc i) xs"

definition game_scale :: "Game \<Rightarrow> real" where
  "game_scale g = min (canvas_width g) (canvas_height g) / 800"

definition brick_colors :: "string list" where
  "brick_colors = [''#dc143c'', ''#ff6600'', ''#ffd700'', ''#00ff7f'', ''#00ffff'',
                   ''#8a2be2'', ''#ff69b4'', ''#deb887'']"

definition getBrickColor :: "nat \<Rightarrow> string" where
  "getBrickColor row = brick_colors ! (row mod length brick_colors)"

definition createBricks :: "Game \<Rightarrow> Game" where
  "createBricks g =
     (let scale = game_scale g;
          brickWidth = 75 * scale;
          brickHeight = 20 * scale;
          padding = 5 * scale;
          rows = 8;
          cols = nat \<lfloor>(canvas_width g - padding * 2) / (brickWidth + padding)\<rfloor>
      in g\<lparr>bricks :=
             concat (map (\<lambda>row. map (\<lambda>col.
                 \<lparr>brick_x = padding + real col * (brickWidth + padding),
                  brick_y = padding + 100 * scale + real row * (brickHeight + padding),
                  brick_width = brickWidth, brick_height = brickHeight,
                  visible = True, hits = 1, color = getBrickColor row\<rparr>)
               [0..<cols]) [0..<rows])\<rparr>)"

text \<open>\<open>initializeGame\<close> builds a new paddle object and a new ball object.\<close>

definition initializeGame :: "Game \<Rightarrow> Game" where
  "initializeGame g =
     (let scale = game_scale g;
          r = nextRef g
      in createBricks
           (g\<lparr>paddle := \<lparr>paddle_x = canvas_width g / 2 - 60 * scale,
                         paddle_y = canvas_height g - 50 * scale,
                         paddle_width = 120 * scale, paddle_height = 15 * scale,
                         paddle_speed = 8 * scale, gpaddle_powerUps = Map.empty\<rparr>,
              heap := (heap g)(r := \<lparr>ball_x = canvas_width g / 2,
                                     ball_y = canvas_height g / 2,
                                     ball_radius = 12 * scale,
                                     speedX = 2 * scale, speedY = - 2 * scale,
                                     ball_powerUps = Map.empty\<rparr>),
              nextRef := Suc r, ball := r, balls := [r]\<rparr>))"

text \<open>
  The constructor, for a canvas of the given size (\<open>resizeCanvas\<close> makes both sides at
  least 400).
\<close>

definition new_game :: "real \<Rightarrow> real \<Rightarrow> Game" where
  "new_game w h =
     initializeGame
       \<lparr>canvas_width = max w 400, canvas_height = max h 400, gameState = ''start'',
        score = 0, lives = 10, level = 1, combo = 0, multiplier = 1,
        heap = (\<lambda>r. \<lparr>ball_x = 0, ball_y = 0, ball_radius = 0, speedX = 0, speedY = 0,
                      ball_powerUps = Map.empty\<rparr>),
        nextRef = 0, ball = 0, balls = [], bricks = [], game_powerUps = [],
        paddle = \<lparr>paddle_x = 0, paddle_y = 0, paddle_width = 0, paddle_height = 0,
                   paddle_speed = 0, gpaddle_powerUps = Map.empty\<rparr>,
        cavityBalls = {}, cavityTimers = Map.empty, originalSpeeds = Map.empty,
        draws = 0\<rparr>"

definition startGame :: "Game \<Rightarrow> Game" where
  "startGame g = g\<lparr>gameState := ''playing''\<rparr>"

text \<open>\<open>resetBall\<close> reuses the object \<open>this.ball\<close>; it draws one random number.\<close>

definition resetBall :: "(nat \<Rightarrow> real) \<Rightarrow> Game \<Rightarrow> Game" where
  "resetBall rnd g =
     (let scale = game_scale g;
          r = ball g;
          b = heap g r;
          b' = b\<lparr>ball_x := canvas_width g / 2, ball_y := canvas_height g / 2,
                 speedX := (if rnd (draws g) > 0.5 then 1 else - 1) * 2 * scale,
                 speedY := - 2 * scale, ball_powerUps := Map.empty\<rparr>
      in g\<lparr>heap := (heap g)(r := b'),
            paddle := (paddle g)\<lparr>gpaddle_powerUps := Map.empty, paddle_width := 120 * scale\<rparr>,
            balls := [r], draws := Suc (draws g)\<rparr>)"

definition gameOver :: "Game \<Rightarrow> Game" where
  "gameOver g = g\<lparr>gameState := ''gameOver''\<rparr>"

section \<open>The per-frame update\<close>

definition updatePaddle :: "bool \<Rightarrow> bool \<Rightarrow> Game \<Rightarrow> Game" where
  "updatePaddle leftKey rightKey g =
     (let g1 = (if leftKey \<and> paddle_x (paddle g) > 0
                then g\<lparr>paddle := (paddle g)\<lparr>paddle_x := paddle_x (paddle g)
                                                            - paddle_speed (paddle g)\<rparr>\<rparr>
                else g)
      in if rightKey \<and> paddle_x (paddle g1) < canvas_width g1 - paddle_width (paddle g1)
         then g1\<lparr>paddle := (paddle g1)\<lparr>paddle_x := paddle_x (paddle g1)
                                                      + paddle_speed (paddle g1)\<rparr>\<rparr>
         else g1)"

text \<open>
  The cavity bookkeeping of \<open>updateBalls\<close> for the ball object \<open>r\<close>, after the ball has
  been moved: entering (not in the set, above \<open>y = 80\<close>), leaving (in the set, not above),
  and then the expiry check of the timer.
\<close>

definition cavityUpdate :: "real \<Rightarrow> nat \<Rightarrow> Game \<Rightarrow> Game" where
  "cavityUpdate now r g =
     (let b = heap g r;
          topBrickY = 80;
          wasInCavity = (r \<in> cavityBalls g);
          isInCavity = (ball_y b < topBrickY);
          g1 = (if isInCavity \<and> \<not> wasInCavity
                then g\<lparr>cavityBalls := insert r (cavityBalls g),
                       score := score g + 50,
                       originalSpeeds := (originalSpeeds g)(r \<mapsto> (speedX b, speedY b)),
                       heap := (heap g)(r := b\<lparr>speedX := speedX b * 1.8,
                                                speedY := speedY b * 1.8\<rparr>)\<rparr>
                else if \<not> isInCavity \<and> wasInCavity
                then g\<lparr>cavityBalls := cavityBalls g - {r},
                       cavityTimers := (cavityTimers g)(r \<mapsto> now + 5000)\<rparr>
                else g)
      in case cavityTimers g1 r of
           None \<Rightarrow> g1
         | Some t \<Rightarrow>
             if now > t
             then (let g2 = g1\<lparr>cavityTimers := (cavityTimers g1)(r := None)\<rparr>
                   in case originalSpeeds g2 r of
                        Some originalSpeed \<Rightarrow>
                          g2\<lparr>heap := (heap g2)(r := (heap g2 r)\<lparr>speedX := fst originalSpeed,
                                                                speedY := snd originalSpeed\<rparr>),
                             originalSpeeds := (originalSpeeds g2)(r := None)\<rparr>
                      | None \<Rightarrow> g2)
             else g1)"

definition moveBall :: "nat \<Rightarrow> Game \<Rightarrow> Game" where
  "moveBall r g =
     g\<lparr>heap := (heap g)(r := (heap g r)\<lparr>ball_x := ball_x (heap g r) + speedX (heap g r),
                                         ball_y := ball_y (heap g r) + speedY (heap g r)\<rparr>)\<rparr>"

definition wallCollisions :: "nat \<Rightarrow> Game \<Rightarrow> Game" where
  "wallCollisions r g =
     (let b = heap g r;
          b1 = (if ball_x b \<le> ball_radius b \<or> ball_x b \<ge> canvas_width g - ball_radius b
                then b\<lparr>speedX := - speedX b\<rparr> else b);
          b2 = (if ball_y b1 \<le> ball_radius b1 then b1\<lparr>speedY := - speedY b1\<rparr> else b1)
      in g\<lparr>heap := (heap g)(r := b2)\<rparr>)"

text \<open>The body of the loop of \<open>updateBalls\<close> for index \<open>i\<close>.\<close>

definition updateBall :: "real \<Rightarrow> nat \<Rightarrow> Game \<Rightarrow> Game" where
  "updateBall now i g =
     (let r = balls g ! i;
          g1 = wallCollisions r (cavityUpdate now r (moveBall r g))
      in if ball_y (heap g1 r) \<ge> canvas_height g1 - ball_radius (heap g1 r)
         then g1\<lparr>balls := splice1 i (balls g1),
                 cavityBalls := cavityBalls g1 - {r},
                 cavityTimers := (cavityTimers g1)(r := None),
                 originalSpeeds := (originalSpeeds g1)(r := None)\<rparr>
         else g1)"

definition updateBalls :: "real \<Rightarrow> (nat \<Rightarrow> real) \<Rightarrow> Game \<Rightarrow> Game" where
  "updateBalls now rnd g =
     (let g1 = loop_down (updateBall now) (length (balls g)) g
      in if length (balls g1) = 0
         then (let g2 = g1\<lparr>lives := lives g1 - 1\<rparr>
               in if lives g2 \<le> 0 then gameOver g2 else resetBall rnd g2)
         else g1)"

text \<open>\<open>balls.forEach\<close> over the ball objects in the array.\<close>

definition forEachBall :: "(GameBall \<Rightarrow> GameBall) \<Rightarrow> Game \<Rightarrow> Game" where
  "forEachBall f g = fold (\<lambda>r g'. g'\<lparr>heap := (heap g')(r := f (heap g' r))\<rparr>) (balls g) g"

definition applyPowerUp :: "string \<Rightarrow> real \<Rightarrow> Game \<Rightarrow> Game" where
  "applyPowerUp ty now g =
     (if ty = ''dynamite''
      then (if length (balls g) < 5
            then (let newBall = (heap g (ball g))\<lparr>speedX := - speedX (heap g (ball g))\<rparr>;
                      r = nextRef g
                  in g\<lparr>heap := (heap g)(r := newBall), nextRef := Suc r,
                        balls := balls g @ [r]\<rparr>)
            else g)
      else if ty = ''whiskey''
      then g\<lparr>paddle := (paddle g)\<lparr>paddle_width := paddle_width (paddle g) * 1.5\<rparr>\<rparr>
      else if ty = ''boots''
      then forEachBall (\<lambda>b. b\<lparr>speedX := speedX b * 1.5, speedY := speedY b * 1.5\<rparr>) g
      else if ty = ''sheriff_badge''
      then forEachBall (\<lambda>b. b\<lparr>ball_powerUps := (ball_powerUps b)(''spike'' \<mapsto> now + 10000)\<rparr>) g
      else if ty = ''horseshoe''
      then forEachBall (\<lambda>b. b\<lparr>speedX := speedX b * 0.5, speedY := speedY b * 0.5\<rparr>) g
      else g)"

text \<open>The body of the loop of \<open>updatePowerUps\<close> for index \<open>i\<close>.\<close>

definition updatePowerUp :: "real \<Rightarrow> nat \<Rightarrow> Game \<Rightarrow> Game" where
  "updatePowerUp now i g =
     (let powerUp = (game_powerUps g ! i)\<lparr>pu_y := pu_y (game_powerUps g ! i) + 2\<rparr>;
          g1 = g\<lparr>game_powerUps := (game_powerUps g)[i := powerUp]\<rparr>
      in if pu_y powerUp > canvas_height g1
         then g1\<lparr>game_powerUps := splice1 i (game_powerUps g1)\<rparr>
         else if pu_x powerUp < paddle_x (paddle g1) + paddle_width (paddle g1) \<and>
                 pu_x powerUp + pu_width powerUp > paddle_x (paddle g1) \<and>
                 pu_y powerUp < paddle_y (paddle g1) + paddle_height (paddle g1) \<and>
                 pu_y powerUp + pu_height powerUp > paddle_y (paddle g1)
         then (let g2 = applyPowerUp (pu_type powerUp) now g1;
                   g3 = g2\<lparr>game_powerUps := splice1 i (game_powerUps g2)\<rparr>
               in g3\<lparr>score := score g3 + 250\<rparr>)
         else g1)"

definition updatePowerUps :: "real \<Rightarrow> Game \<Rightarrow> Game" where
  "updatePowerUps now g = loop_down (updatePowerUp now) (length (game_powerUps g)) g"

text \<open>
  \<open>findNextBrick(currentBrick, direction)\<close>: the first brick of the array that is
  visible and lies within half a brick of the next grid position; bricks are identified
  by their index in the array.
\<close>

definition findNextBrick :: "nat \<Rightarrow> real \<times> real \<Rightarrow> Game \<Rightarrow> nat option" where
  "findNextBrick currentBrick direction g =
     (let scale = game_scale g;
          brickWidth = 75 * scale;
          brickHeight = 20 * scale;
          padding = 5 * scale;
          nextX = brick_x (bricks g ! currentBrick) + fst direction * (brickWidth + padding);
          nextY = brick_y (bricks g ! currentBrick) + snd direction * (brickHeight + padding)
      in List.find (\<lambda>i. visible (bricks g ! i) \<and>
                           \<bar>brick_x (bricks g ! i) - nextX\<bar> < brickWidth / 2 \<and>
                           \<bar>brick_y (bricks g ! i) - nextY\<bar> < brickHeight / 2)
                   [0..<length (bricks g)])"

text \<open>The loop that looks for the next \<open>n\<close> bricks in the direction of movement.\<close>

fun spikeChain :: "nat \<Rightarrow> nat \<Rightarrow> real \<times> real \<Rightarrow> Game \<Rightarrow> nat list" where
  "spikeChain 0 currentBrick direction g = []"
| "spikeChain (Suc n) currentBrick direction g =
     (case findNextBrick currentBrick direction g of
        None \<Rightarrow> []
      | Some nextBrick \<Rightarrow>
          if visible (bricks g ! nextBrick)
          then nextBrick # spikeChain n nextBrick direction g
          else [])"

definition nth_or :: "'a \<Rightarrow> 'a list \<Rightarrow> nat \<Rightarrow> 'a" where
  "nth_or d xs i = (if i < length xs then xs ! i else d)"

text \<open>\<open>createPowerUp(x, y)\<close> draws the type of the new pickup.\<close>

definition createPowerUp :: "(nat \<Rightarrow> real) \<Rightarrow> real \<Rightarrow> real \<Rightarrow> Game \<Rightarrow> Game" where
  "createPowerUp rnd px py g =
     (let types = [''dynamite'', ''whiskey'', ''horseshoe'', ''boots'', ''sheriff_badge''];
          colors = [''#8b4513'', ''#d2691e'', ''#c0c0c0'', ''#654321'', ''#ffd700''];
          typeIndex = nat \<lfloor>rnd (draws g) * real (length types)\<rfloor>
      in g\<lparr>game_powerUps := game_powerUps g @
              [\<lparr>pu_x = px - 30, pu_y = py, pu_width = 60, pu_height = 60,
                pu_type = nth_or ''undefined'' types typeIndex,
                pu_color = nth_or ''undefined'' colors typeIndex\<rparr>],
            draws := Suc (draws g)\<rparr>)"

text \<open>
  The body of \<open>bricksHit.forEach\<close> in \<open>hitBrick(brick, ball)\<close> for one hit brick.  The
  random drop is tried only for the brick that was hit first; \<open>Math.random()\<close> is drawn
  before the number of pickups is looked at.
\<close>

definition processHit :: "(nat \<Rightarrow> real) \<Rightarrow> nat \<Rightarrow> nat \<Rightarrow> nat \<Rightarrow> Game \<Rightarrow> Game" where
  "processHit rnd brick r hit g =
     (let g1 = g\<lparr>bricks := (bricks g)[hit := (bricks g ! hit)\<lparr>visible := False\<rparr>]\<rparr>;
          points = 100 * multiplier g1;
          ballInCavity = (r \<in> cavityBalls g1 \<or> cavityTimers g1 r \<noteq> None);
          points' = (if ballInCavity then points * 2 else points);
          g2 = g1\<lparr>score := score g1 + points', combo := combo g1 + 1\<rparr>
      in if hit = brick
         then (let g3 = g2\<lparr>draws := Suc (draws g2)\<rparr>
               in if rnd (draws g2) < 0.08 \<and> length (game_powerUps g3) < 2
                  then createPowerUp rnd
                         (brick_x (bricks g3 ! hit) + brick_width (bricks g3 ! hit) / 2)
                         (brick_y (bricks g3 ! hit) + brick_height (bricks g3 ! hit) / 2)
                         g3
                  else g3)
         else g2)"

text \<open>The multiplier update at the end of \<open>hitBrick\<close>.\<close>

definition updateMultiplier :: "Game \<Rightarrow> Game" where
  "updateMultiplier g =
     (if combo g > 5 then g\<lparr>multiplier := min 5 (combo g div 5 + 1)\<rparr> else g)"

definition hasSpike :: "real \<Rightarrow> GameBall \<Rightarrow> bool" where
  "hasSpike now b =
     (case ball_powerUps b ''spike'' of None \<Rightarrow> False | Some t \<Rightarrow> t \<noteq> 0 \<and> t > now)"

definition hitBrick :: "real \<Rightarrow> (nat \<Rightarrow> real) \<Rightarrow> nat \<Rightarrow> nat \<Rightarrow> Game \<Rightarrow> Game" where
  "hitBrick now rnd brick r g =
     (let spiked = hasSpike now (heap g r);
          bricksHit = (if spiked
                       then brick # spikeChain 2 brick
                                      (sgn (speedX (heap g r)), sgn (speedY (heap g r))) g
                       else [brick]);
          g1 = updateMultiplier (fold (processHit rnd brick r) bricksHit g)
      in if \<not> spiked
         then g1\<lparr>heap := (heap g1)(r := (heap g1 r)\<lparr>speedY := - speedY (heap g1 r)\<rparr>)\<rparr>
         else g1)"

definition paddleCollision :: "nat \<Rightarrow> Game \<Rightarrow> Game" where
  "paddleCollision r g =
     (let b = heap g r; p = paddle g
      in if ball_y b + ball_radius b \<ge> paddle_y p \<and> ball_x b \<ge> paddle_x p \<and>
            ball_x b \<le> paddle_x p + paddle_width p \<and> speedY b > 0
         then (let hitPos = (ball_x b - (paddle_x p + paddle_width p / 2)) / (paddle_width p / 2)
               in g\<lparr>heap := (heap g)(r := b\<lparr>speedX := hitPos * 5,
                                               speedY := - \<bar>speedY b\<bar>\<rparr>)\<rparr>)
         else g)"

definition brickCollision :: "real \<Rightarrow> (nat \<Rightarrow> real) \<Rightarrow> nat \<Rightarrow> Game \<Rightarrow> Game" where
  "brickCollision now rnd r g =
     (let b = heap g r
      in case List.find (\<lambda>i. visible (bricks g ! i) \<and>
                              ball_x b \<ge> brick_x (bricks g ! i) \<and>
                              ball_x b \<le> brick_x (bricks g ! i) + brick_width (bricks g ! i) \<and>
                              ball_y b \<ge> brick_y (bricks g ! i) \<and>
                              ball_y b \<le> brick_y (bricks g ! i) + brick_height (bricks g ! i))
                        [0..<length (bricks g)] of
           None \<Rightarrow> g
         | Some brick \<Rightarrow> hitBrick now rnd brick r g)"

definition checkCollisions :: "real \<Rightarrow> (nat \<Rightarrow> real) \<Rightarrow> Game \<Rightarrow> Game" where
  "checkCollisions now rnd g =
     fold (\<lambda>r g'. brickCollision now rnd r (paddleCollision r g')) (balls g) g"

text \<open>\<open>levelComplete\<close>: the level is incremented first; the bonus is computed afterwards.\<close>

definition levelComplete :: "(nat \<Rightarrow> real) \<Rightarrow> Game \<Rightarrow> Game" where
  "levelComplete rnd g =
     (let g1 = g\<lparr>level := level g + 1, combo := 0, multiplier := 1\<rparr>;
          levelBonus = level g1 * 1000;
          g2 = g1\<lparr>score := score g1 + levelBonus\<rparr>
      in resetBall rnd (createBricks g2))"

definition checkGameState :: "(nat \<Rightarrow> real) \<Rightarrow> Game \<Rightarrow> Game" where
  "checkGameState rnd g =
     (let remainingBricks = filter visible (bricks g)
      in if length remainingBricks = 0 then levelComplete rnd g else g)"

text \<open>
  \<open>update()\<close>, one frame: nothing happens unless the game is being played.  The keys
  held down are inputs of the frame.
\<close>

definition update :: "real \<Rightarrow> (nat \<Rightarrow> real) \<Rightarrow> bool \<Rightarrow> bool \<Rightarrow> Game \<Rightarrow> Game" where
  "update now rnd leftKey rightKey g =
     (if gameState g \<noteq> ''playing'' then g
      else checkGameState rnd
             (checkCollisions now rnd
               (updatePowerUps now
                 (updateBalls now rnd
                   (updatePaddle leftKey rightKey g)))))"

text \<open>The states that the per-frame update reaches from a newly started game.\<close>

inductive reachable :: "Game \<Rightarrow> bool" where
  reachable_start: "reachable (startGame (new_game w h))"
| reachable_update: "reachable g \<Longrightarrow> reachable (update now rnd leftKey rightKey g)"

section \<open>Example game states\<close>

text \<open>A stream of draws in which no brick drops a pickup (\<open>0.5 \<ge> 0.08\<close>).\<close>

definition rnd_half :: "nat \<Rightarrow> real" where
  "rnd_half n = 1 / 2"

text \<open>
  A game on the 400 by 400 canvas (scale 0.5) late in level 1.  Two bricks are still
  visible: the one of row 2, column 2, at \<open>(82.5, 77.5)\<close>, and the one of row 7,
  column 8; the hidden bricks, which every loop of the update skips, are left out.  The
  ball entered the cavity with velocity \<open>(0.5, -1)\<close>, was boosted to \<open>(0.9, -1.8)\<close>,
  bounced off the top wall and is now at \<open>(82, 79)\<close>, about to leave the cavity.
\<close>

definition demo_game :: Game where
  "demo_game =
     \<lparr>canvas_width = 400, canvas_height = 400, gameState = ''playing'',
      score = 31050, lives = 10, level = 1, combo = 70, multiplier = 5,
      heap = (\<lambda>r. \<lparr>ball_x = 0, ball_y = 0, ball_radius = 0, speedX = 0, speedY = 0,
                    ball_powerUps = Map.empty\<rparr>)
             (0 := \<lparr>ball_x = 82, ball_y = 79, ball_radius = 6, speedX = 0.9, speedY = 1.8,
                     ball_powerUps = Map.empty\<rparr>),
      nextRef = 1, ball = 0, balls = [0],
      bricks = [\<lparr>brick_x = 82.5, brick_y = 77.5, brick_width = 37.5, brick_height = 10,
                 visible = True, hits = 1, color = ''#ffd700''\<rparr>,
                \<lparr>brick_x = 322.5, brick_y = 140, brick_width = 37.5, brick_height = 10,
                 visible = True, hits = 1, color = ''#deb887''\<rparr>],
      game_powerUps = [],
      paddle = \<lparr>paddle_x = 170, paddle_y = 375, paddle_width = 60, paddle_height = 7.5,
                 paddle_speed = 4, gpaddle_powerUps = Map.empty\<rparr>,
      cavityBalls = {0}, cavityTimers = Map.empty,
      originalSpeeds = [0 \<mapsto> (0.5, - 1)], draws = 0\<rparr>"

text \<open>The same game at level 3, at the moment the last brick has been hidden.\<close>

definition level3_cleared :: Game where
  "level3_cleared =
     demo_game\<lparr>level := 3, bricks := map (\<lambda>b. b\<lparr>visible := False\<rparr>) (bricks demo_game)\<rparr>"


text \<open>
  Three frames played from \<open>demo_game\<close>, no key held: at time 1000, 16 ms later, and
  after the page has been in the background for five seconds.
\<close>

definition demo_frame1 :: Game where
  "demo_frame1 = update 1000 rnd_half False False demo_game"

definition demo_frame2 :: Game where
  "demo_frame2 = update 1016 rnd_half False False demo_frame1"

definition demo_frame3 :: Game where
  "demo_frame3 = update 6100 rnd_half False False demo_frame2"

text \<open>The same game after four multi-ball pickups.\<close>

definition five_balls :: Game where
  "five_balls = (applyPowerUp ''dynamite'' 1000 ^^ 4) demo_game"

section \<open>The background music of the AudioManager\<close>

text \<open>
  The fields of the \<open>AudioManager\<close> that the music functions read and write.  The audio
  sources that \<open>createBufferSource\<close> has created are kept in \<open>sources\<close>, a source
  being its index there; \<open>hasContext\<close> says that \<open>this.context\<close> is not \<open>null\<close>.

  \<open>startBackgroundMusic\<close> and \<open>playNextAudioTrack\<close> are \<open>async\<close> functions that nobody
  awaits: a call runs up to its first \<open>await\<close> and returns, and the rest of the body runs
  later, as an event of its own, after whatever the page did in between.  The last two
  fields are the state of the event loop, not fields of the class: \<open>starting\<close>
  counts the calls of \<open>startBackgroundMusic\<close> that wait at
  \<open>await this.initializeAudio()\<close>, and \<open>loading\<close> the calls of \<open>playNextAudioTrack\<close>
  that wait for their track.
\<close>

datatype SourceState = Created | Playing | Ended

datatype AudioError = InvalidStateError | TypeError

datatype InitOutcome = InitOk | NoAudioContext | NoGainNode

record Audio =
  hasContext :: bool
  isInitialized :: bool
  isMuted :: bool
  userHasInteracted :: bool
  hasPlayedFirstTrack :: bool
  currentMusic :: "string option"
  currentMusicSource :: "nat option"
  sources :: "SourceState list"
  musicFiles :: "string list option"
  currentTrackIndex :: nat
  starting :: nat
  loading :: nat

text \<open>The manager that the constructor builds.\<close>

definition new_AudioManager :: Audio where
  "new_AudioManager =
     \<lparr>hasContext = False, isInitialized = False, isMuted = False, userHasInteracted = False,
      hasPlayedFirstTrack = False, currentMusic = None, currentMusicSource = None,
      sources = [], musicFiles = None, currentTrackIndex = 0, starting = 0, loading = 0\<rparr>"

text \<open>
  \<open>initializeAudio\<close>: the \<open>catch\<close> sets \<open>isInitialized = false\<close>, whether the constructor
  of the audio context threw (the browser has none) or the creation of a gain node did,
  after the context had been assigned.
\<close>

definition initializeAudio :: "InitOutcome \<Rightarrow> Audio \<Rightarrow> Audio" where
  "initializeAudio outcome a =
     (case outcome of
        InitOk \<Rightarrow> a\<lparr>hasContext := True, isInitialized := True\<rparr>
      | NoGainNode \<Rightarrow> a\<lparr>hasContext := True, isInitialized := False\<rparr>
      | NoAudioContext \<Rightarrow> a\<lparr>isInitialized := False\<rparr>)"

text \<open>
  \<open>source.stop()\<close> of the browser: it ends a playing source, and it is taken to throw
  on a source that is not playing, the case the \<open>catch\<close> of \<open>stopCurrentMusic\<close> is for.
\<close>

definition sourceStop :: "nat \<Rightarrow> Audio \<Rightarrow> AudioError + Audio" where
  "sourceStop src a =
     (if src < length (sources a) \<and> sources a ! src = Playing
      then Inr (a\<lparr>sources := (sources a)[src := Ended]\<rparr>)
      else Inl InvalidStateError)"

text \<open>\<open>stopCurrentMusic\<close>: the \<open>try\<close>/\<open>catch\<close> around \<open>stop()\<close> swallows the error.\<close>

definition stopCurrentMusic :: "Audio \<Rightarrow> Audio" where
  "stopCurrentMusic a =
     (let a1 = (case currentMusicSource a of
                  None \<Rightarrow> a
                | Some src \<Rightarrow>
                    (let a2 = (case sourceStop src a of Inr a' \<Rightarrow> a' | Inl e \<Rightarrow> a)
                     in a2\<lparr>currentMusicSource := None\<rparr>))
      in a1\<lparr>currentMusic := None\<rparr>)"


definition unmute :: "Audio \<Rightarrow> Audio" where
  "unmute a = a\<lparr>isMuted := False\<rparr>"

text \<open>
  \<open>playNextAudioTrack\<close>, the part that runs in the call: the guard, \<open>stopCurrentMusic\<close>,
  and the suspension at \<open>await this.resumeContext()\<close>.
\<close>

definition playNextAudioTrack :: "Audio \<Rightarrow> Audio" where
  "playNextAudioTrack a =
     (if \<not> isInitialized a \<or> isMuted a \<or> currentMusic a = None then a
      else (let a1 = stopCurrentMusic a
            in a1\<lparr>loading := loading a1 + 1\<rparr>))"

text \<open>
  The rest of \<open>playNextAudioTrack\<close>, run when one of the suspended calls is resumed.
  Between the first \<open>await\<close> and \<open>createBufferSource\<close> the function waits three more
  times (\<open>fetch\<close>, \<open>arrayBuffer\<close>, \<open>decodeAudioData\<close>) and writes no field, so that the
  four waits are taken as one; \<open>fetched\<close> says that the file was fetched and decoded.
  Without music files or without a context the body throws a \<open>TypeError\<close>.  Any error
  goes to the \<open>catch\<close> block, which writes no field, and which itself throws at
  \<open>console.error('Track path:', trackPath)\<close>, the constant \<open>trackPath\<close> being local to
  the \<open>try\<close> block; so the retry timer behind it is never set.
\<close>

definition trackLoaded :: "bool \<Rightarrow> Audio \<Rightarrow> Audio" where
  "trackLoaded fetched a =
     (if loading a = 0 then a
      else (let a1 = a\<lparr>loading := loading a - 1\<rparr>
            in if musicFiles a1 = None \<or> \<not> fetched \<or> \<not> hasContext a1 then a1
               else (let source = length (sources a1);
                         a2 = a1\<lparr>sources := sources a1 @ [Created],
                                 currentMusicSource := Some source\<rparr>;
                         a3 = a2\<lparr>hasPlayedFirstTrack := True\<rparr>
                     in a3\<lparr>sources := (sources a3)[source := Playing]\<rparr>)))"

text \<open>
  The two timers that \<open>playNextAudioTrack\<close> sets after \<open>source.start(0)\<close>: the first
  fires when the track is over and moves to the next song, the second, two seconds
  later, calls \<open>playNextAudioTrack\<close>; both only if \<open>currentMusic\<close> is set.
\<close>

definition trackEndTimer :: "Audio \<Rightarrow> Audio" where
  "trackEndTimer a =
     (if currentMusic a \<noteq> None then a\<lparr>currentTrackIndex := currentTrackIndex a + 1\<rparr> else a)"

definition nextTrackTimer :: "Audio \<Rightarrow> Audio" where
  "nextTrackTimer a = (if currentMusic a \<noteq> None then playNextAudioTrack a else a)"

definition default_musicFiles :: "string list" where
  "default_musicFiles =
     [''./assets/sounds/harmonica 1 tunes - bar 141 - Eitan Epstein Music - main.wav'',
      ''./assets/sounds/The Western short version.wav'',
      ''./assets/sounds/Western.mp3'',
      ''./assets/sounds/Western (Full Version).mp3'',
      ''./assets/sounds/Country Western/Country Western 01.mp3'',
      ''./assets/sounds/Country/Country.mp3'',
      ''./assets/sounds/Country Ways.mp3'',
      ''./assets/sounds/Lady Fortune.mp3'',
      ''./assets/sounds/Traveling Through.mp3'',
      ''./assets/sounds/CountryHoedown_96_JHungerX.wav'',
      ''./assets/sounds/Funny Country.wav'',
      ''./assets/sounds/Uplifting Country 2.wav'',
      ''./assets/sounds/acd c tunes 02a - bar 1225 - eitan-ep - main.wav'']"

text \<open>
  \<open>startBackgroundMusic\<close> from the set-up of the music files on.  Reading
  \<open>this.context.currentTime\<close> throws a \<open>TypeError\<close> when there is no context: the
  function ends there, after \<open>stopCurrentMusic\<close>, and \<open>currentMusic\<close> stays \<open>null\<close>.  The
  call of \<open>playNextAudioTrack\<close> is not awaited.
\<close>

definition startBackgroundMusicRest :: "Audio \<Rightarrow> Audio \<times> AudioError option" where
  "startBackgroundMusicRest a =
     (let a3 = (if musicFiles a = None
                then a\<lparr>musicFiles := Some default_musicFiles, currentTrackIndex := 0\<rparr>
                else a);
          a4 = stopCurrentMusic a3
      in if \<not> hasContext a4 then (a4, Some TypeError)
         else (playNextAudioTrack (a4\<lparr>currentMusic := Some ''audio_files''\<rparr>), None))"

text \<open>
  \<open>startBackgroundMusic\<close>, the part that runs in the call.  On an initialized manager
  that is all of it; otherwise \<open>initializeAudio\<close> runs, with the given outcome, and the
  function is suspended at \<open>await this.initializeAudio()\<close>.
\<close>

definition startBackgroundMusic :: "InitOutcome \<Rightarrow> Audio \<Rightarrow> Audio \<times> AudioError option" where
  "startBackgroundMusic outcome a =
     (let a1 = a\<lparr>userHasInteracted := True\<rparr>
      in if \<not> isInitialized a1
         then (let a2 = initializeAudio outcome a1 in (a2\<lparr>starting := starting a2 + 1\<rparr>, None))
         else startBackgroundMusicRest a1)"

text \<open>One of the suspended calls of \<open>startBackgroundMusic\<close> is resumed.\<close>

definition startBackgroundMusicResumed :: "Audio \<Rightarrow> Audio \<times> AudioError option" where
  "startBackgroundMusicResumed a =
     (if starting a = 0 then (a, None)
      else startBackgroundMusicRest (a\<lparr>starting := starting a - 1\<rparr>))"

text \<open>
  \<open>playNextTrackManual\<close>, the handler of the S key and of the skip button.  It reads
  the time as \<open>this.context ? this.context.currentTime : 0\<close> and does not await
  \<open>playNextAudioTrack\<close>.
\<close>

definition playNextTrackManual :: "Audio \<Rightarrow> Audio" where
  "playNextTrackManual a =
     (case musicFiles a of
        None \<Rightarrow> a
      | Some files \<Rightarrow>
          if length files = 0 then a
          else (let a1 = stopCurrentMusic a;
                    a2 = a1\<lparr>currentTrackIndex := (currentTrackIndex a1 + 1) mod length files\<rparr>;
                    a3 = a2\<lparr>currentMusic := Some ''audio_files''\<rparr>
                in playNextAudioTrack a3))"

text \<open>The music sources that are sounding.\<close>

definition activeSources :: "Audio \<Rightarrow> nat list" where
  "activeSources a = filter (\<lambda>i. sources a ! i = Playing) [0..<length (sources a)]"

text \<open>Mutual exclusion: a music source that is sounding is the one the manager tracks.\<close>

definition musicExclusive :: "Audio \<Rightarrow> bool" where
  "musicExclusive a =
     (\<forall>i < length (sources a). sources a ! i = Playing \<longrightarrow> currentMusicSource a = Some i)"

text \<open>An audio manager on which track A, source 0, is playing.\<close>

definition playing_A :: Audio where
  "playing_A =
     \<lparr>hasContext = True, isInitialized = True, isMuted = False, userHasInteracted = True,
      hasPlayedFirstTrack = True, currentMusic = None, currentMusicSource = Some 0,
      sources = [Playing], musicFiles = Some default_musicFiles, currentTrackIndex = 0,
      starting = 0, loading = 0\<rparr>"


section \<open>Properties of the Ball entity\<close>

lemma ball_removePowerUp_frame:
  "position (ball_removePowerUp ty bl) = position bl"
  "velocity (ball_removePowerUp ty bl) = velocity bl"
  "radius (ball_removePowerUp ty bl) = radius bl"
  by (simp_all add: ball_removePowerUp_def Let_def)

lemma ball_updatePowerUps_fold_frame:
  "position (fold (\<lambda>ty b. case map_of (powerUps b) ty of
                     Some t \<Rightarrow> if t \<le> now then ball_removePowerUp ty b else b
                   | None \<Rightarrow> b) ks bl) = position bl \<and>
   velocity (fold (\<lambda>ty b. case map_of (powerUps b) ty of
                     Some t \<Rightarrow> if t \<le> now then ball_removePowerUp ty b else b
                   | None \<Rightarrow> b) ks bl) = velocity bl \<and>
   radius (fold (\<lambda>ty b. case map_of (powerUps b) ty of
                     Some t \<Rightarrow> if t \<le> now then ball_removePowerUp ty b else b
                   | None \<Rightarrow> b) ks bl) = radius bl"
  by (induction ks arbitrary: bl)
     (simp_all add: ball_removePowerUp_frame split: option.split)

lemma ball_updatePowerUps_frame:
  "position (ball_updatePowerUps now bl) = position bl"
  "velocity (ball_updatePowerUps now bl) = velocity bl"
  "radius (ball_updatePowerUps now bl) = radius bl"
  unfolding ball_updatePowerUps_def
  using ball_updatePowerUps_fold_frame [of now "map fst (powerUps bl)" bl] by simp_all

lemma updateTrails_frame:
  "position (updateTrails now bl) = position bl"
  "velocity (updateTrails now bl) = velocity bl"
  "radius (updateTrails now bl) = radius bl"
  by (simp_all add: updateTrails_def Let_def)

lemma updateVisualEffects_frame:
  "position (updateVisualEffects bl) = position bl"
  "velocity (updateVisualEffects bl) = velocity bl"
  "radius (updateVisualEffects bl) = radius bl"
  by (simp_all add: updateVisualEffects_def)

lemma ballUpdate_motion:
  "position (ballUpdate dt cb now bl) =
     position (handleBoundaryCollisions cb
       (bl\<lparr>position := vec_add (vec (vec_x (velocity bl) * dt) (vec_y (velocity bl) * dt))
                                (position bl)\<rparr>))"
  "velocity (ballUpdate dt cb now bl) =
     velocity (handleBoundaryCollisions cb
       (bl\<lparr>position := vec_add (vec (vec_x (velocity bl) * dt) (vec_y (velocity bl) * dt))
                                (position bl)\<rparr>))"
  by (simp_all add: ballUpdate_def updateVisualEffects_frame updateTrails_frame
        ball_updatePowerUps_frame)

text \<open>
  Claim C6.  A ball past the left wall that moves left is, after one \<open>update\<close> with a
  non-negative time step, at \<open>x = radius\<close> with a strictly positive x-velocity.  The
  right wall (for a canvas at least one radius wide) and the top wall behave the same
  way: the position is clamped inside by the radius and the velocity component points
  inward.
\<close>

theorem ball_update_wall_bounce:
  assumes "0 \<le> dt" and "0 < radius bl"
  shows "(vec_x (position bl) < 0 \<and> vec_x (velocity bl) < 0 \<longrightarrow>
            vec_x (position (ballUpdate dt cb now bl)) = radius bl \<and>
            0 < vec_x (velocity (ballUpdate dt cb now bl))) \<and>
         (bounds_width cb < vec_x (position bl) \<and> 0 < vec_x (velocity bl) \<and>
          radius bl \<le> bounds_width cb \<longrightarrow>
            vec_x (position (ballUpdate dt cb now bl)) = bounds_width cb - radius bl \<and>
            vec_x (velocity (ballUpdate dt cb now bl)) < 0) \<and>
         (vec_y (position bl) < 0 \<and> vec_y (velocity bl) < 0 \<longrightarrow>
            vec_y (position (ballUpdate dt cb now bl)) = radius bl \<and>
            0 < vec_y (velocity (ballUpdate dt cb now bl)))"
proof (intro conjI impI)
  assume l: "vec_x (position bl) < 0 \<and> vec_x (velocity bl) < 0"
  then have "vec_x (velocity bl) * dt \<le> 0"
    using assms(1) by (simp add: mult_le_0_iff)
  then have edge: "vec_x (position bl) + vec_x (velocity bl) * dt - radius bl \<le> 0"
    using l assms(2) by linarith
  show "vec_x (position (ballUpdate dt cb now bl)) = radius bl"
    using edge
    by (simp add: ballUpdate_motion handleBoundaryCollisions_def getBounds_def Let_def
          vec_add_def vec_def)
  show "0 < vec_x (velocity (ballUpdate dt cb now bl))"
    using edge l
    by (simp add: ballUpdate_motion handleBoundaryCollisions_def getBounds_def Let_def
          vec_add_def vec_def)
next
  assume r: "bounds_width cb < vec_x (position bl) \<and> 0 < vec_x (velocity bl) \<and>
             radius bl \<le> bounds_width cb"
  then have mv: "0 \<le> vec_x (velocity bl) * dt"
    using assms(1) by simp
  have notleft: "\<not> vec_x (position bl) + vec_x (velocity bl) * dt - radius bl \<le> 0"
    using r mv by linarith
  have right: "bounds_width cb \<le> vec_x (position bl) + vec_x (velocity bl) * dt + radius bl"
    using r mv assms(2) by linarith
  show "vec_x (position (ballUpdate dt cb now bl)) = bounds_width cb - radius bl"
    using notleft right
    by (simp add: ballUpdate_motion handleBoundaryCollisions_def getBounds_def Let_def
          vec_add_def vec_def)
  show "vec_x (velocity (ballUpdate dt cb now bl)) < 0"
    using notleft right r
    by (simp add: ballUpdate_motion handleBoundaryCollisions_def getBounds_def Let_def
          vec_add_def vec_def)
next
  assume t: "vec_y (position bl) < 0 \<and> vec_y (velocity bl) < 0"
  then have "vec_y (velocity bl) * dt \<le> 0"
    using assms(1) by (simp add: mult_le_0_iff)
  then have edge: "vec_y (position bl) + vec_y (velocity bl) * dt - radius bl \<le> 0"
    using t assms(2) by linarith
  show "vec_y (position (ballUpdate dt cb now bl)) = radius bl"
    using edge
    by (simp add: ballUpdate_motion handleBoundaryCollisions_def getBounds_def Let_def
          vec_add_def vec_def)
  show "0 < vec_y (velocity (ballUpdate dt cb now bl))"
    using edge t
    by (simp add: ballUpdate_motion handleBoundaryCollisions_def getBounds_def Let_def
          vec_add_def vec_def)
qed

text \<open>
  The three cases of the unit test: \<open>x = -5\<close> moving left, \<open>x = width + 5\<close> moving right,
  \<open>y = -5\<close> moving up, on the 800 by 600 canvas with a time step of 1.
\<close>

theorem ball_update_wall_bounce_witness:
  "vec_x (position (ballUpdate 1 \<lparr>bounds_width = 800, bounds_height = 600\<rparr> 1000
      ((new_Ball 100 100)\<lparr>position := vec (-5) 100, velocity := vec (-2) 0\<rparr>))) = 8 \<and>
   0 < vec_x (velocity (ballUpdate 1 \<lparr>bounds_width = 800, bounds_height = 600\<rparr> 1000
      ((new_Ball 100 100)\<lparr>position := vec (-5) 100, velocity := vec (-2) 0\<rparr>))) \<and>
   vec_x (position (ballUpdate 1 \<lparr>bounds_width = 800, bounds_height = 600\<rparr> 1000
      ((new_Ball 100 100)\<lparr>position := vec 805 100, velocity := vec 2 0\<rparr>))) = 792 \<and>
   vec_x (velocity (ballUpdate 1 \<lparr>bounds_width = 800, bounds_height = 600\<rparr> 1000
      ((new_Ball 100 100)\<lparr>position := vec 805 100, velocity := vec 2 0\<rparr>))) < 0 \<and>
   vec_y (position (ballUpdate 1 \<lparr>bounds_width = 800, bounds_height = 600\<rparr> 1000
      ((new_Ball 100 100)\<lparr>position := vec 792 (-5), velocity := vec 0 (-2)\<rparr>))) = 8 \<and>
   0 < vec_y (velocity (ballUpdate 1 \<lparr>bounds_width = 800, bounds_height = 600\<rparr> 1000
      ((new_Ball 100 100)\<lparr>position := vec 792 (-5), velocity := vec 0 (-2)\<rparr>)))"
  using ball_update_wall_bounce [of 1
          "(new_Ball 100 100)\<lparr>position := vec (-5) 100, velocity := vec (-2) 0\<rparr>"
          "\<lparr>bounds_width = 800, bounds_height = 600\<rparr>" 1000]
        ball_update_wall_bounce [of 1
          "(new_Ball 100 100)\<lparr>position := vec 805 100, velocity := vec 2 0\<rparr>"
          "\<lparr>bounds_width = 800, bounds_height = 600\<rparr>" 1000]
        ball_update_wall_bounce [of 1
          "(new_Ball 100 100)\<lparr>position := vec 792 (-5), velocity := vec 0 (-2)\<rparr>"
          "\<lparr>bounds_width = 800, bounds_height = 600\<rparr>" 1000]
  by (simp add: new_Ball_def vec_def BALL_RADIUS_def)

lemma deserialize_serialize_fields:
  "position (deserialize (serialize bl) other) = position bl"
  "velocity (deserialize (serialize bl) other) = velocity bl"
  "radius (deserialize (serialize bl) other) = radius bl"
  "powerUps (deserialize (serialize bl) other) = powerUps bl"
  "energyLevel bl \<noteq> 0 \<Longrightarrow> energyLevel (deserialize (serialize bl) other) = energyLevel bl"
  by (simp_all add: deserialize_def serialize_def vec_set_def toObject_def js_or_num_def)

text \<open>
  Claim C5.  The round trip is not lossless at \<open>energyLevel = 0\<close>.  A new ball at rest has
  energy level 0 after one \<open>update\<close>; serialising it and deserialising the result into a
  fresh ball gives energy level 1, because \<open>data.energyLevel || 1.0\<close> takes the default
  for the falsy value 0.
\<close>

theorem deserialize_serialize_energyLevel_zero:
  "energyLevel (ballUpdate 1 \<lparr>bounds_width = 800, bounds_height = 600\<rparr> 1000
                  (new_Ball 100 100)) = 0 \<and>
   energyLevel (deserialize
                  (serialize (ballUpdate 1 \<lparr>bounds_width = 800, bounds_height = 600\<rparr> 1000
                                (new_Ball 100 100)))
                  (new_Ball 0 0)) = 1"
  by (simp add: ballUpdate_def updateVisualEffects_def getSpeed_def magnitude_def
        updateTrails_frame ball_updatePowerUps_frame handleBoundaryCollisions_def
        getBounds_def Let_def new_Ball_def vec_def vec_add_def BALL_RADIUS_def
        deserialize_def serialize_def js_or_num_def)

section \<open>Properties of the Paddle entity\<close>



section \<open>Properties of the game\<close>

subsection \<open>Evaluation\<close>

text \<open>
  The definitions of one frame, for evaluating it on a concrete state.  They are used
  with the weak congruence rule of \<open>Let\<close>, so that a bound value is evaluated before it
  is put into the body.
\<close>

lemmas frame_defs =
  update_def updatePaddle_def updateBalls_def updateBall_def moveBall_def cavityUpdate_def
  wallCollisions_def splice1_def updatePowerUps_def checkCollisions_def paddleCollision_def
  brickCollision_def hitBrick_def hasSpike_def processHit_def updateMultiplier_def
  checkGameState_def rnd_half_def Let_def

subsection \<open>Level completion\<close>

lemma resetBall_frame:
  "level (resetBall rnd g) = level g"
  "score (resetBall rnd g) = score g"
  "combo (resetBall rnd g) = combo g"
  "multiplier (resetBall rnd g) = multiplier g"
  "balls (resetBall rnd g) = [ball g]"
  by (simp_all add: resetBall_def Let_def)

lemma createBricks_frame:
  "level (createBricks g) = level g"
  "score (createBricks g) = score g"
  "combo (createBricks g) = combo g"
  "multiplier (createBricks g) = multiplier g"
  "balls (createBricks g) = balls g"
  "ball (createBricks g) = ball g"
  by (simp_all add: createBricks_def Let_def)

lemma levelComplete_fields:
  "level (levelComplete rnd g) = level g + 1"
  "score (levelComplete rnd g) = score g + (level g + 1) * 1000"
  "combo (levelComplete rnd g) = 0"
  "multiplier (levelComplete rnd g) = 1"
  by (simp_all add: levelComplete_def Let_def resetBall_frame createBricks_frame)

text \<open>
  Claim C1, as the code has it.  Level completion increments the level to \<open>L + 1\<close>,
  resets combo to 0 and multiplier to 1, and awards a bonus of \<open>(L + 1) * 1000\<close> points:
  the bonus is computed from the level after the increment.  \<open>checkGameState\<close> calls it
  when no brick is visible.
\<close>

theorem levelComplete_bonus_of_new_level:
  "level (levelComplete rnd g) = level g + 1 \<and>
   score (levelComplete rnd g) = score g + (level g + 1) * 1000 \<and>
   combo (levelComplete rnd g) = 0 \<and>
   multiplier (levelComplete rnd g) = 1 \<and>
   (filter visible (bricks g) = [] \<longrightarrow> checkGameState rnd g = levelComplete rnd g)"
  by (simp add: levelComplete_fields checkGameState_def)

theorem levelComplete_bonus_of_new_level_witness:
  "filter visible (bricks level3_cleared) = [] \<and>
   level level3_cleared = 3 \<and>
   level (checkGameState rnd_half level3_cleared) = 4 \<and>
   score (checkGameState rnd_half level3_cleared) = score level3_cleared + 4000 \<and>
   combo (checkGameState rnd_half level3_cleared) = 0 \<and>
   multiplier (checkGameState rnd_half level3_cleared) = 1"
proof -
  have cleared: "filter visible (bricks level3_cleared) = []"
    by (simp add: level3_cleared_def demo_game_def)
  have lvl: "level level3_cleared = 3"
    by (simp add: level3_cleared_def)
  from levelComplete_bonus_of_new_level [of rnd_half level3_cleared] cleared lvl
  show ?thesis by simp
qed

text \<open>
  At level 3 with no brick left visible, the score goes up by 4000, not by 3000.
\<close>

theorem levelComplete_bonus_counterexample:
  "level level3_cleared = 3 \<and>
   filter visible (bricks level3_cleared) = [] \<and>
   level (checkGameState rnd_half level3_cleared) = 4 \<and>
   score (checkGameState rnd_half level3_cleared) = score level3_cleared + 4000 \<and>
   score (checkGameState rnd_half level3_cleared) \<noteq> score level3_cleared + 3000"
proof -
  have cleared: "filter visible (bricks level3_cleared) = []"
    by (simp add: level3_cleared_def demo_game_def)
  have lvl: "level level3_cleared = 3"
    by (simp add: level3_cleared_def)
  show ?thesis
    using cleared lvl by (simp add: checkGameState_def levelComplete_fields)
qed

subsection \<open>Combo and multiplier\<close>

lemma processHit_combo:
  "combo (processHit rnd brick r hb g) = combo g + 1"
  "multiplier (processHit rnd brick r hb g) = multiplier g"
  by (auto simp add: processHit_def createPowerUp_def Let_def)

lemma fold_processHit_combo:
  "combo (fold (processHit rnd brick r) hs g) = combo g + int (length hs) \<and>
   multiplier (fold (processHit rnd brick r) hs g) = multiplier g"
  by (induction hs arbitrary: g) (simp_all add: processHit_combo)

lemma updateMultiplier_rule:
  "multiplier (updateMultiplier g) =
     (if combo g > 5 then min 5 (combo g div 5 + 1) else multiplier g)"
  "combo (updateMultiplier g) = combo g"
  by (simp_all add: updateMultiplier_def)

lemma hitBrick_combo:
  "combo (hitBrick now rnd brick r g) =
     combo g + (if hasSpike now (heap g r)
                then 1 + int (length (spikeChain 2 brick
                                (sgn (speedX (heap g r)), sgn (speedY (heap g r))) g))
                else 1)"
  by (simp add: hitBrick_def Let_def updateMultiplier_rule fold_processHit_combo
        processHit_combo)

lemma hitBrick_multiplier:
  "multiplier (hitBrick now rnd brick r g) =
     (if combo (hitBrick now rnd brick r g) > 5
      then min 5 (combo (hitBrick now rnd brick r g) div 5 + 1) else multiplier g)"
  by (simp add: hitBrick_def Let_def updateMultiplier_rule fold_processHit_combo
        processHit_combo)

lemma loop_down_invariant:
  "(\<And>i s. P s \<Longrightarrow> P (body i s)) \<Longrightarrow> P s \<Longrightarrow> P (loop_down body n s)"
  by (induction n arbitrary: s) simp_all

lemma forEachBall_fold_combo:
  "combo (fold (\<lambda>r g'. g'\<lparr>heap := (heap g')(r := f (heap g' r))\<rparr>) rs g) = combo g \<and>
   multiplier (fold (\<lambda>r g'. g'\<lparr>heap := (heap g')(r := f (heap g' r))\<rparr>) rs g) = multiplier g"
  by (induction rs arbitrary: g) simp_all

lemma forEachBall_combo:
  "combo (forEachBall f g) = combo g" "multiplier (forEachBall f g) = multiplier g"
  by (simp_all add: forEachBall_def forEachBall_fold_combo)

lemma applyPowerUp_combo:
  "combo (applyPowerUp ty now g) = combo g" "multiplier (applyPowerUp ty now g) = multiplier g"
  by (simp_all add: applyPowerUp_def forEachBall_combo Let_def)

lemma cavityUpdate_combo:
  "combo (cavityUpdate now r g) = combo g" "multiplier (cavityUpdate now r g) = multiplier g"
  by (simp_all add: cavityUpdate_def Let_def split: option.split)

lemma updateBall_combo:
  "combo (updateBall now i g) = combo g" "multiplier (updateBall now i g) = multiplier g"
  by (simp_all add: updateBall_def wallCollisions_def moveBall_def cavityUpdate_combo Let_def)

lemma updateBalls_combo:
  "combo (updateBalls now rnd g) = combo g \<and> multiplier (updateBalls now rnd g) = multiplier g"
proof -
  have "combo (loop_down (updateBall now) (length (balls g)) g) = combo g \<and>
        multiplier (loop_down (updateBall now) (length (balls g)) g) = multiplier g"
    by (rule loop_down_invariant [where P = "\<lambda>s. combo s = combo g \<and> multiplier s = multiplier g"])
       (simp_all add: updateBall_combo)
  then show ?thesis
    by (simp add: updateBalls_def Let_def gameOver_def resetBall_def)
qed

lemma updatePowerUp_combo:
  "combo (updatePowerUp now i g) = combo g" "multiplier (updatePowerUp now i g) = multiplier g"
  by (simp_all add: updatePowerUp_def applyPowerUp_combo Let_def)

lemma updatePowerUps_combo:
  "combo (updatePowerUps now g) = combo g \<and> multiplier (updatePowerUps now g) = multiplier g"
  unfolding updatePowerUps_def
  by (rule loop_down_invariant [where P = "\<lambda>s. combo s = combo g \<and> multiplier s = multiplier g"])
     (simp_all add: updatePowerUp_combo)

lemma hitBrick_rule:
  "multiplier g = (if 5 < combo g then min 5 (combo g div 5 + 1) else 1) \<Longrightarrow>
   multiplier (hitBrick now rnd brick r g) =
     (if 5 < combo (hitBrick now rnd brick r g)
      then min 5 (combo (hitBrick now rnd brick r g) div 5 + 1) else 1)"
  by (auto simp add: hitBrick_multiplier hitBrick_combo split: if_splits)

lemma hitBrick_idle:
  "(combo g \<le> 5 \<longrightarrow> multiplier g = 1) \<Longrightarrow>
   multiplier (hitBrick now rnd brick r g) =
     (if 5 < combo (hitBrick now rnd brick r g)
      then min 5 (combo (hitBrick now rnd brick r g) div 5 + 1) else 1)"
  by (auto simp add: hitBrick_multiplier hitBrick_combo split: if_splits)

lemma brickCollision_rule:
  "multiplier g = (if 5 < combo g then min 5 (combo g div 5 + 1) else 1) \<Longrightarrow>
   multiplier (brickCollision now rnd r g) =
     (if 5 < combo (brickCollision now rnd r g)
      then min 5 (combo (brickCollision now rnd r g) div 5 + 1) else 1)"
  by (simp add: brickCollision_def Let_def hitBrick_rule split: option.split)

lemma paddleCollision_rule:
  "multiplier g = (if 5 < combo g then min 5 (combo g div 5 + 1) else 1) \<Longrightarrow>
   multiplier (paddleCollision r g) =
     (if 5 < combo (paddleCollision r g)
      then min 5 (combo (paddleCollision r g) div 5 + 1) else 1)"
  by (simp add: paddleCollision_def Let_def)

lemma checkCollisions_fold_rule:
  "multiplier g = (if 5 < combo g then min 5 (combo g div 5 + 1) else 1) \<Longrightarrow>
   multiplier (fold (\<lambda>r g'. brickCollision now rnd r (paddleCollision r g')) rs g) =
     (if 5 < combo (fold (\<lambda>r g'. brickCollision now rnd r (paddleCollision r g')) rs g)
      then min 5 (combo (fold (\<lambda>r g'. brickCollision now rnd r (paddleCollision r g')) rs g) div 5 + 1)
      else 1)"
proof (induction rs arbitrary: g)
  case Nil
  then show ?case by simp
next
  case (Cons a rs)
  have "multiplier (brickCollision now rnd a (paddleCollision a g)) =
     (if 5 < combo (brickCollision now rnd a (paddleCollision a g))
      then min 5 (combo (brickCollision now rnd a (paddleCollision a g)) div 5 + 1) else 1)"
    by (intro brickCollision_rule paddleCollision_rule Cons.prems)
  from Cons.IH [OF this] show ?case by simp
qed

lemma checkCollisions_rule:
  "multiplier g = (if 5 < combo g then min 5 (combo g div 5 + 1) else 1) \<Longrightarrow>
   multiplier (checkCollisions now rnd g) =
     (if 5 < combo (checkCollisions now rnd g)
      then min 5 (combo (checkCollisions now rnd g) div 5 + 1) else 1)"
  by (simp only: checkCollisions_def checkCollisions_fold_rule)

lemma checkGameState_rule:
  "multiplier g = (if 5 < combo g then min 5 (combo g div 5 + 1) else 1) \<Longrightarrow>
   multiplier (checkGameState rnd g) =
     (if 5 < combo (checkGameState rnd g)
      then min 5 (combo (checkGameState rnd g) div 5 + 1) else 1)"
  by (simp add: checkGameState_def levelComplete_fields)

lemma update_rule:
  assumes "multiplier g = (if 5 < combo g then min 5 (combo g div 5 + 1) else 1)"
  shows "multiplier (update now rnd leftKey rightKey g) =
     (if 5 < combo (update now rnd leftKey rightKey g)
      then min 5 (combo (update now rnd leftKey rightKey g) div 5 + 1) else 1)"
proof -
  let ?g3 = "updatePowerUps now (updateBalls now rnd (updatePaddle leftKey rightKey g))"
  have "combo ?g3 = combo g" "multiplier ?g3 = multiplier g"
    by (simp_all add: updatePowerUps_combo updateBalls_combo updatePaddle_def Let_def)
  with assms have "multiplier ?g3 = (if 5 < combo ?g3 then min 5 (combo ?g3 div 5 + 1) else 1)"
    by simp
  then have "multiplier (checkGameState rnd (checkCollisions now rnd ?g3)) =
     (if 5 < combo (checkGameState rnd (checkCollisions now rnd ?g3))
      then min 5 (combo (checkGameState rnd (checkCollisions now rnd ?g3)) div 5 + 1) else 1)"
    by (intro checkGameState_rule checkCollisions_rule)
  with assms show ?thesis by (simp add: update_def)
qed

lemma new_game_rule:
  "combo (startGame (new_game w h)) = 0" "multiplier (startGame (new_game w h)) = 1"
  by (simp_all add: startGame_def new_game_def initializeGame_def createBricks_def Let_def)

lemma reachable_rule:
  "reachable g \<Longrightarrow> multiplier g = (if 5 < combo g then min 5 (combo g div 5 + 1) else 1)"
proof (induction rule: reachable.induct)
  case (reachable_start w h)
  then show ?case by (simp add: new_game_rule)
next
  case (reachable_update g now rnd leftKey rightKey)
  then show ?case by (intro update_rule)
qed

text \<open>
  Claim C2, as the code has it.  The game writes \<open>combo\<close> and \<open>multiplier\<close> together as
  0 and 1 (constructor, paddle hit, level completion) and otherwise changes the multiplier
  only in the recompute of \<open>hitBrick\<close>, so in every state the game reaches the multiplier
  is \<open>min(5, floor(combo / 5) + 1)\<close> when the combo exceeds 5 and is 1 otherwise.
  After \<open>hitBrick\<close>, in a reachable state and more generally in any state whose
  multiplier is 1 while its combo is at most 5, the multiplier is
  \<open>min(5, floor(combo / 5) + 1)\<close> of the new combo when that combo exceeds 5, and is 1
  otherwise.  The combos 0, 5, 6, 10, 15, 26, 30 and 100 give 1, 1, 2, 3, 4, 5, 5 and 5:
  combo 26 gives 5, the cap.
\<close>

theorem hitBrick_multiplier_recompute:
  "(reachable g \<longrightarrow>
      multiplier g = (if 5 < combo g then min 5 (combo g div 5 + 1) else 1) \<and>
      multiplier (hitBrick now rnd brick r g) =
        (if 5 < combo (hitBrick now rnd brick r g)
         then min 5 (combo (hitBrick now rnd brick r g) div 5 + 1) else 1)) \<and>
   ((combo g \<le> 5 \<longrightarrow> multiplier g = 1) \<longrightarrow>
      multiplier (hitBrick now rnd brick r g) =
        (if 5 < combo (hitBrick now rnd brick r g)
         then min 5 (combo (hitBrick now rnd brick r g) div 5 + 1) else 1) \<and>
      (combo (hitBrick now rnd brick r g) \<le> 5 \<longrightarrow> multiplier (hitBrick now rnd brick r g) = 1) \<and>
      (combo (hitBrick now rnd brick r g) = 0 \<longrightarrow> multiplier (hitBrick now rnd brick r g) = 1) \<and>
      (combo (hitBrick now rnd brick r g) = 5 \<longrightarrow> multiplier (hitBrick now rnd brick r g) = 1) \<and>
      (combo (hitBrick now rnd brick r g) = 6 \<longrightarrow> multiplier (hitBrick now rnd brick r g) = 2) \<and>
      (combo (hitBrick now rnd brick r g) = 10 \<longrightarrow> multiplier (hitBrick now rnd brick r g) = 3) \<and>
      (combo (hitBrick now rnd brick r g) = 15 \<longrightarrow> multiplier (hitBrick now rnd brick r g) = 4) \<and>
      (combo (hitBrick now rnd brick r g) = 26 \<longrightarrow> multiplier (hitBrick now rnd brick r g) = 5) \<and>
      (combo (hitBrick now rnd brick r g) = 30 \<longrightarrow> multiplier (hitBrick now rnd brick r g) = 5) \<and>
      (combo (hitBrick now rnd brick r g) = 100 \<longrightarrow> multiplier (hitBrick now rnd brick r g) = 5) \<and>
      (20 \<le> combo (hitBrick now rnd brick r g) \<longrightarrow> multiplier (hitBrick now rnd brick r g) = 5))"
proof -
  have a: "reachable g \<longrightarrow>
      multiplier g = (if 5 < combo g then min 5 (combo g div 5 + 1) else 1) \<and>
      multiplier (hitBrick now rnd brick r g) =
        (if 5 < combo (hitBrick now rnd brick r g)
         then min 5 (combo (hitBrick now rnd brick r g) div 5 + 1) else 1)"
    using reachable_rule [of g] hitBrick_rule [of g now rnd brick r] by blast
  have b: "(combo g \<le> 5 \<longrightarrow> multiplier g = 1) \<longrightarrow>
      multiplier (hitBrick now rnd brick r g) =
        (if 5 < combo (hitBrick now rnd brick r g)
         then min 5 (combo (hitBrick now rnd brick r g) div 5 + 1) else 1)"
    using hitBrick_idle [of g now rnd brick r] by blast
  from a b show ?thesis by simp
qed

text \<open>
  The first brick hit of a game started on an 800 by 600 canvas, a state the game
  reaches, and the brick hits that bring the combo of \<open>demo_game\<close> to 5, 6, 10, 15, 30
  and 100, each from the multiplier that the rule gives for the combo before the hit.
\<close>

theorem hitBrick_multiplier_recompute_witness:
  "reachable (startGame (new_game 800 600)) \<and>
   combo (startGame (new_game 800 600)) = 0 \<and> multiplier (startGame (new_game 800 600)) = 1 \<and>
   combo (hitBrick 1000 rnd_half 0 0 (startGame (new_game 800 600))) = 1 \<and>
   multiplier (hitBrick 1000 rnd_half 0 0 (startGame (new_game 800 600))) = 1 \<and>
   combo (hitBrick 1000 rnd_half 0 0 (demo_game\<lparr>combo := 4, multiplier := 1\<rparr>)) = 5 \<and>
   multiplier (hitBrick 1000 rnd_half 0 0 (demo_game\<lparr>combo := 4, multiplier := 1\<rparr>)) = 1 \<and>
   combo (hitBrick 1000 rnd_half 0 0 (demo_game\<lparr>combo := 5, multiplier := 1\<rparr>)) = 6 \<and>
   multiplier (hitBrick 1000 rnd_half 0 0 (demo_game\<lparr>combo := 5, multiplier := 1\<rparr>)) = 2 \<and>
   combo (hitBrick 1000 rnd_half 0 0 (demo_game\<lparr>combo := 9, multiplier := 2\<rparr>)) = 10 \<and>
   multiplier (hitBrick 1000 rnd_half 0 0 (demo_game\<lparr>combo := 9, multiplier := 2\<rparr>)) = 3 \<and>
   combo (hitBrick 1000 rnd_half 0 0 (demo_game\<lparr>combo := 14, multiplier := 3\<rparr>)) = 15 \<and>
   multiplier (hitBrick 1000 rnd_half 0 0 (demo_game\<lparr>combo := 14, multiplier := 3\<rparr>)) = 4 \<and>
   combo (hitBrick 1000 rnd_half 0 0 (demo_game\<lparr>combo := 29\<rparr>)) = 30 \<and>
   multiplier (hitBrick 1000 rnd_half 0 0 (demo_game\<lparr>combo := 29\<rparr>)) = 5 \<and>
   combo (hitBrick 1000 rnd_half 0 0 (demo_game\<lparr>combo := 99\<rparr>)) = 100 \<and>
   multiplier (hitBrick 1000 rnd_half 0 0 (demo_game\<lparr>combo := 99\<rparr>)) = 5"
proof -
  have r: "reachable (startGame (new_game 800 600))" by (rule reachable_start)
  have s: "combo (startGame (new_game 800 600)) = 0" "multiplier (startGame (new_game 800 600)) = 1"
    by (simp_all add: new_game_rule)
  have h: "\<not> hasSpike 1000 (heap (startGame (new_game 800 600)) 0)"
    by (simp add: hasSpike_def startGame_def new_game_def initializeGame_def createBricks_def Let_def)
  have d: "\<not> hasSpike 1000 (heap demo_game 0)" "multiplier demo_game = 5"
    by (simp_all add: hasSpike_def demo_game_def)
  from hitBrick_multiplier_recompute [of "startGame (new_game 800 600)" 1000 rnd_half 0 0]
       hitBrick_multiplier_recompute [of "demo_game\<lparr>combo := 4, multiplier := 1\<rparr>" 1000 rnd_half 0 0]
       hitBrick_multiplier_recompute [of "demo_game\<lparr>combo := 5, multiplier := 1\<rparr>" 1000 rnd_half 0 0]
       hitBrick_multiplier_recompute [of "demo_game\<lparr>combo := 9, multiplier := 2\<rparr>" 1000 rnd_half 0 0]
       hitBrick_multiplier_recompute [of "demo_game\<lparr>combo := 14, multiplier := 3\<rparr>" 1000 rnd_half 0 0]
       hitBrick_multiplier_recompute [of "demo_game\<lparr>combo := 29\<rparr>" 1000 rnd_half 0 0]
       hitBrick_multiplier_recompute [of "demo_game\<lparr>combo := 99\<rparr>" 1000 rnd_half 0 0]
       r s h d
  show ?thesis by (simp add: hitBrick_combo)
qed

text \<open>
  The 26th brick of a combo: the combo goes from 25 to 26 and the multiplier is 5,
  not 6.
\<close>

theorem hitBrick_multiplier_counterexample:
  "combo (hitBrick 1000 rnd_half 0 0 (demo_game\<lparr>combo := 25\<rparr>)) = 26 \<and>
   multiplier (hitBrick 1000 rnd_half 0 0 (demo_game\<lparr>combo := 25\<rparr>)) = 5 \<and>
   multiplier (hitBrick 1000 rnd_half 0 0 (demo_game\<lparr>combo := 25\<rparr>)) \<noteq> 6"
proof -
  have c: "combo (hitBrick 1000 rnd_half 0 0 (demo_game\<lparr>combo := 25\<rparr>)) = 26"
    by (simp add: hitBrick_combo hasSpike_def demo_game_def)
  have m: "multiplier (hitBrick 1000 rnd_half 0 0 (demo_game\<lparr>combo := 25\<rparr>)) = 5"
    by (simp add: hitBrick_multiplier c)
  from c m show ?thesis by simp
qed

subsection \<open>The cavity\<close>



lemma demo_frame1_eq:
  "demo_frame1 =
     demo_game\<lparr>score := 32050, combo := 71, draws := 1,
       heap := (heap demo_game)(0 := (heap demo_game 0)\<lparr>ball_x := 82.9, ball_y := 80.8, speedY := - 1.8\<rparr>),
       bricks := (bricks demo_game)[0 := (bricks demo_game ! 0)\<lparr>visible := False\<rparr>],
       cavityBalls := {}, cavityTimers := [0 \<mapsto> 6000]\<rparr>"
  by (simp add: demo_frame1_def demo_game_def frame_defs upt_rec cong: let_weak_cong)

lemma demo_frame2_eq:
  "demo_frame2 =
     demo_frame1\<lparr>score := 32100,
       heap := (heap demo_frame1)(0 := (heap demo_frame1 0)\<lparr>ball_x := 83.8, ball_y := 79, speedX := 1.62, speedY := - 3.24\<rparr>),
       cavityBalls := {0}, originalSpeeds := [0 \<mapsto> (0.9, - 1.8)]\<rparr>"
  unfolding demo_frame2_def demo_frame1_eq
  by (simp add: demo_game_def frame_defs upt_rec cong: let_weak_cong)

lemma demo_frame3_eq:
  "demo_frame3 =
     demo_frame2\<lparr>
       heap := (heap demo_frame2)(0 := (heap demo_frame2 0)\<lparr>ball_x := 85.42, ball_y := 75.76, speedX := 0.9, speedY := - 1.8\<rparr>),
       cavityTimers := Map.empty, originalSpeeds := Map.empty\<rparr>"
  unfolding demo_frame3_def demo_frame2_eq demo_frame1_eq
  by (simp add: demo_game_def frame_defs upt_rec cong: let_weak_cong)

text \<open>
  Claim C3.  From \<open>demo_game\<close>, where the ball is in the cavity set only: in the first
  frame the ball leaves the cavity, which starts its timer, and hits the brick of row 2,
  which turns it upwards; in the second frame it is above \<open>y = 80\<close> again and is put
  into the cavity set while its timer is still in the timer map.  The velocity recorded
  on this second entry is the boosted one, so the expiry of the timer in the third
  frame restores \<open>(0.9, -1.8)\<close>, not the velocity \<open>(0.5, -1)\<close> of normal play, and leaves
  the ball in the cavity set without a recorded velocity.
\<close>

theorem cavity_reentry_during_grace:
  "0 \<in> cavityBalls demo_game \<and> cavityTimers demo_game 0 = None \<and>
   originalSpeeds demo_game 0 = Some (0.5, - 1) \<and>
   0 \<notin> cavityBalls demo_frame1 \<and> cavityTimers demo_frame1 0 = Some 6000 \<and>
   0 \<in> cavityBalls demo_frame2 \<and> cavityTimers demo_frame2 0 = Some 6000 \<and>
   originalSpeeds demo_frame2 0 = Some (0.9, - 1.8) \<and>
   0 \<in> cavityBalls demo_frame3 \<and> cavityTimers demo_frame3 0 = None \<and>
   originalSpeeds demo_frame3 0 = None \<and>
   speedX (heap demo_frame3 0) = 0.9 \<and> speedY (heap demo_frame3 0) = - 1.8"
  unfolding demo_frame3_eq demo_frame2_eq demo_frame1_eq
  by (simp add: demo_game_def)

subsection \<open>Power-ups\<close>

lemma funpow_whiskey:
  "paddle_width (paddle ((applyPowerUp ''whiskey'' now ^^ k) g)) = paddle_width (paddle g) * 1.5 ^ k"
  by (induction k) (simp_all add: applyPowerUp_def)

lemma fold_wide:
  "width (fold (\<lambda>(d, n). paddle_applyPowerUp WIDE_PADDLE d n) ds p) =
     (if ds = [] then width p else baseWidth p * 1.5) \<and>
   baseWidth (fold (\<lambda>(d, n). paddle_applyPowerUp WIDE_PADDLE d n) ds p) = baseWidth p"
  by (induction ds arbitrary: p) (auto simp add: paddle_applyPowerUp_def Let_def split: prod.splits)

text \<open>
  Claim C7, as the code has it.  \<open>Paddle.applyPowerUp\<close> with the wide-paddle type sets
  the width to 1.5 times \<open>baseWidth\<close>, however often it is applied.  The whiskey pickup of
  the game multiplies the current width of the paddle by 1.5 each time: \<open>k\<close> pickups
  give \<open>1.5 ^ k\<close> times the width.
\<close>

theorem wide_paddle_not_cumulative_whiskey_cumulative:
  "width (paddle_applyPowerUp WIDE_PADDLE d2 n2 (paddle_applyPowerUp WIDE_PADDLE d1 n1 p)) =
     baseWidth p * 1.5 \<and>
   (ds \<noteq> [] \<longrightarrow>
      width (fold (\<lambda>(d, n). paddle_applyPowerUp WIDE_PADDLE d n) ds p) = baseWidth p * 1.5) \<and>
   paddle_width (paddle ((applyPowerUp ''whiskey'' now ^^ k) g)) =
     paddle_width (paddle g) * 1.5 ^ k"
  by (simp add: fold_wide funpow_whiskey) (simp add: paddle_applyPowerUp_def Let_def)

theorem wide_paddle_not_cumulative_whiskey_cumulative_witness:
  "width (fold (\<lambda>(d, n). paddle_applyPowerUp WIDE_PADDLE d n)
            [(10000, 1000), (10000, 2000), (10000, 3000)] (new_Paddle 350 550)) = 150 \<and>
   paddle_width (paddle ((applyPowerUp ''whiskey'' 1000 ^^ 2) demo_game)) = 135"
  using wide_paddle_not_cumulative_whiskey_cumulative
          [where ?d1.0 = 10000 and ?n1.0 = 1000 and ?d2.0 = 10000 and ?n2.0 = 2000
             and ?p = "new_Paddle 350 550"
             and ?ds = "[(10000, 1000), (10000, 2000), (10000, 3000)]"
             and ?now = 1000 and ?k = 2 and ?g = demo_game]
  by (simp add: new_Paddle_def PADDLE_WIDTH_def demo_game_def power2_eq_square)

text \<open>Two whiskey pickups widen the paddle from 60 to 135, which is 2.25 times 60.\<close>

theorem whiskey_compounds_counterexample:
  "paddle_width (paddle demo_game) = 60 \<and>
   paddle_width (paddle (applyPowerUp ''whiskey'' 2000 (applyPowerUp ''whiskey'' 1000 demo_game))) = 135 \<and>
   paddle_width (paddle (applyPowerUp ''whiskey'' 2000 (applyPowerUp ''whiskey'' 1000 demo_game)))
     \<noteq> 1.5 * paddle_width (paddle demo_game)"
  by (simp add: applyPowerUp_def demo_game_def)

lemma forEachBall_fold_balls:
  "balls (fold (\<lambda>r g'. g'\<lparr>heap := (heap g')(r := f (heap g' r))\<rparr>) rs g) = balls g"
  by (induction rs arbitrary: g) simp_all

lemma forEachBall_balls: "balls (forEachBall f g) = balls g"
  by (simp add: forEachBall_def forEachBall_fold_balls)

lemma applyPowerUp_cap:
  "length (balls g) \<le> 5 \<Longrightarrow> length (balls (applyPowerUp ty now g)) \<le> 5"
  by (simp add: applyPowerUp_def forEachBall_balls Let_def)

lemma dynamite_at_cap: "length (balls g) = 5 \<Longrightarrow> applyPowerUp ''dynamite'' now g = g"
  by (simp add: applyPowerUp_def)

lemma cavityUpdate_balls: "balls (cavityUpdate now r g) = balls g"
  by (simp add: cavityUpdate_def Let_def split: option.split)

lemma moveBall_balls: "balls (moveBall r g) = balls g"
  by (simp add: moveBall_def)

lemma wallCollisions_balls: "balls (wallCollisions r g) = balls g"
  by (simp add: wallCollisions_def Let_def)

lemma splice1_length: "length (splice1 i xs) \<le> length xs"
  by (simp add: splice1_def)

lemma updateBall_balls:
  "balls (updateBall now i g) = balls g \<or> balls (updateBall now i g) = splice1 i (balls g)"
  by (simp add: updateBall_def Let_def wallCollisions_balls cavityUpdate_balls moveBall_balls)

lemma updateBall_cap:
  "length (balls g) \<le> 5 \<Longrightarrow> length (balls (updateBall now i g)) \<le> 5"
  using updateBall_balls [of now i g] splice1_length [of i "balls g"] by auto

lemma updateBalls_cap:
  "length (balls g) \<le> 5 \<Longrightarrow> length (balls (updateBalls now rnd g)) \<le> 5"
proof -
  assume a: "length (balls g) \<le> 5"
  have "length (balls (loop_down (updateBall now) (length (balls g)) g)) \<le> 5"
    by (rule loop_down_invariant [where P = "\<lambda>s. length (balls s) \<le> 5"]) (simp_all add: updateBall_cap a)
  then show ?thesis
    by (simp add: updateBalls_def Let_def gameOver_def resetBall_def)
qed

lemma updatePowerUp_cap:
  "length (balls g) \<le> 5 \<Longrightarrow> length (balls (updatePowerUp now i g)) \<le> 5"
  by (simp add: updatePowerUp_def Let_def applyPowerUp_cap)

lemma updatePowerUps_cap:
  "length (balls g) \<le> 5 \<Longrightarrow> length (balls (updatePowerUps now g)) \<le> 5"
  unfolding updatePowerUps_def
  by (rule loop_down_invariant [where P = "\<lambda>s. length (balls s) \<le> 5"]) (simp_all add: updatePowerUp_cap)

lemma processHit_balls: "balls (processHit rnd brick r hb g) = balls g"
  by (auto simp add: processHit_def createPowerUp_def Let_def)

lemma fold_processHit_balls: "balls (fold (processHit rnd brick r) hs g) = balls g"
  by (induction hs arbitrary: g) (simp_all add: processHit_balls)

lemma hitBrick_balls: "balls (hitBrick now rnd brick r g) = balls g"
  by (simp add: hitBrick_def Let_def updateMultiplier_def fold_processHit_balls processHit_balls)

lemma brickCollision_balls: "balls (brickCollision now rnd r g) = balls g"
  by (simp add: brickCollision_def Let_def hitBrick_balls split: option.split)

lemma paddleCollision_balls: "balls (paddleCollision r g) = balls g"
  by (simp add: paddleCollision_def Let_def)

lemma checkCollisions_fold_balls:
  "balls (fold (\<lambda>r g'. brickCollision now rnd r (paddleCollision r g')) rs g) = balls g"
  by (induction rs arbitrary: g) (simp_all add: brickCollision_balls paddleCollision_balls)

lemma checkCollisions_balls: "balls (checkCollisions now rnd g) = balls g"
  by (simp add: checkCollisions_def checkCollisions_fold_balls)

lemma checkGameState_cap:
  "length (balls g) \<le> 5 \<Longrightarrow> length (balls (checkGameState rnd g)) \<le> 5"
  by (simp add: checkGameState_def levelComplete_def Let_def resetBall_def)

lemma update_cap:
  "length (balls g) \<le> 5 \<Longrightarrow> length (balls (update now rnd leftKey rightKey g)) \<le> 5"
proof -
  assume a: "length (balls g) \<le> 5"
  have "length (balls (updatePaddle leftKey rightKey g)) \<le> 5"
    using a by (simp add: updatePaddle_def Let_def)
  then have "length (balls (updatePowerUps now (updateBalls now rnd (updatePaddle leftKey rightKey g)))) \<le> 5"
    by (intro updatePowerUps_cap updateBalls_cap)
  then have "length (balls (checkGameState rnd (checkCollisions now rnd
              (updatePowerUps now (updateBalls now rnd (updatePaddle leftKey rightKey g)))))) \<le> 5"
    by (intro checkGameState_cap) (simp add: checkCollisions_balls)
  with a show ?thesis by (simp add: update_def)
qed

lemma new_game_balls: "balls (startGame (new_game w h)) = [0]"
  by (simp add: startGame_def new_game_def initializeGame_def createBricks_def Let_def)

lemma reachable_cap: "reachable g \<Longrightarrow> length (balls g) \<le> 5"
  by (induction rule: reachable.induct) (simp_all add: new_game_balls update_cap)

text \<open>
  Claim C9.  No state that the update cycle reaches from a new game has more than five
  balls; one frame and any power-up keep the count at most 5; and with five balls the
  multi-ball power-up returns the state unchanged.
\<close>

theorem balls_never_exceed_five:
  "(reachable g \<longrightarrow> length (balls g) \<le> 5) \<and>
   (length (balls g) \<le> 5 \<longrightarrow>
      length (balls (update now rnd leftKey rightKey g)) \<le> 5 \<and>
      length (balls (applyPowerUp ty now g)) \<le> 5) \<and>
   (length (balls g) = 5 \<longrightarrow> applyPowerUp ''dynamite'' now g = g)"
  by (simp add: reachable_cap update_cap applyPowerUp_cap dynamite_at_cap)

text \<open>
  A new game, and the game with five balls: a fifth multi-ball pickup changes nothing.
\<close>

theorem balls_never_exceed_five_witness:
  "reachable (startGame (new_game 800 600)) \<and>
   length (balls (startGame (new_game 800 600))) \<le> 5 \<and>
   balls five_balls = [0, 1, 2, 3, 4] \<and> 
   applyPowerUp ''dynamite'' 1000 five_balls = five_balls \<and>
   length (balls (applyPowerUp ''dynamite'' 1000 five_balls)) = 5 \<and>
   length (balls (update 1000 rnd_half False False five_balls)) \<le> 5"
proof -
  have r: "reachable (startGame (new_game 800 600))" by (rule reachable_start)
  have b: "balls five_balls = [0, 1, 2, 3, 4]"
    by (simp add: five_balls_def eval_nat_numeral applyPowerUp_def demo_game_def Let_def cong: let_weak_cong)
  from balls_never_exceed_five [of "startGame (new_game 800 600)" 1000 rnd_half False False "''dynamite''"] r
       balls_never_exceed_five [of five_balls 1000 rnd_half False False "''dynamite''"] b
  show ?thesis by simp
qed

section \<open>Properties of the background music\<close>


lemma activeSources_empty_iff:
  "activeSources a = [] \<longleftrightarrow> (\<forall>i < length (sources a). sources a ! i \<noteq> Playing)"
  by (auto simp add: activeSources_def filter_empty_conv)








lemma musicExclusive_quiet: "activeSources a = [] \<Longrightarrow> musicExclusive a"
  by (simp add: musicExclusive_def activeSources_empty_iff)






lemma trackLoaded_idle: "loading a = 0 \<Longrightarrow> trackLoaded fetched a = a"
  by (simp add: trackLoaded_def)






text \<open>
  Two skips in a row, the second before the track of the first has been loaded, as
  when the S key is pressed twice or when a tap on the skip button runs both its
  \<open>click\<close> and its \<open>touchstart\<close> handler.  The second call finds no tracked source to
  stop, both calls go on to start their source, and the first of the two is no longer
  tracked: \<open>stopCurrentMusic\<close> does not reach it.
\<close>

lemma overlapping_skips:
  "loading (playNextTrackManual (playNextTrackManual playing_A)) = 2 \<and>
   sources (playNextTrackManual (playNextTrackManual playing_A)) = [Ended] \<and>
   sources (trackLoaded True (trackLoaded True
      (playNextTrackManual (playNextTrackManual playing_A)))) = [Ended, Playing, Playing] \<and>
   currentMusicSource (trackLoaded True (trackLoaded True
      (playNextTrackManual (playNextTrackManual playing_A)))) = Some 2 \<and>
   activeSources (trackLoaded True (trackLoaded True
      (playNextTrackManual (playNextTrackManual playing_A)))) = [1, 2] \<and>
   activeSources (stopCurrentMusic (trackLoaded True (trackLoaded True
      (playNextTrackManual (playNextTrackManual playing_A))))) = [1]"
  by (simp add: playNextTrackManual_def playNextAudioTrack_def trackLoaded_def
        stopCurrentMusic_def sourceStop_def activeSources_def playing_A_def
        default_musicFiles_def Let_def upt_rec)

text \<open>
  The first start in a browser without an audio context: the resumed call throws at
  \<open>this.context.currentTime\<close> and no track is requested.
\<close>

lemma start_without_context:
  "fst (startBackgroundMusic NoAudioContext new_AudioManager) =
     new_AudioManager\<lparr>userHasInteracted := True, starting := 1\<rparr> \<and>
   startBackgroundMusicResumed (fst (startBackgroundMusic NoAudioContext new_AudioManager)) =
     (new_AudioManager\<lparr>userHasInteracted := True, musicFiles := Some default_musicFiles\<rparr>,
      Some TypeError)"
  by (simp add: startBackgroundMusic_def startBackgroundMusicResumed_def
        startBackgroundMusicRest_def initializeAudio_def stopCurrentMusic_def
        new_AudioManager_def Let_def)

text \<open>The first start in a browser with an audio context, the track loading.\<close>

lemma first_start:
  "fst (startBackgroundMusic InitOk new_AudioManager) =
     new_AudioManager\<lparr>userHasInteracted := True, hasContext := True, isInitialized := True,
       starting := 1\<rparr> \<and>
   activeSources (trackLoaded True (fst (startBackgroundMusicResumed
      (fst (startBackgroundMusic InitOk new_AudioManager))))) = [0] \<and>
   snd (startBackgroundMusicResumed (fst (startBackgroundMusic InitOk new_AudioManager))) = None"
  by (simp add: startBackgroundMusic_def startBackgroundMusicResumed_def
        startBackgroundMusicRest_def initializeAudio_def stopCurrentMusic_def
        playNextAudioTrack_def trackLoaded_def activeSources_def
        new_AudioManager_def Let_def)




end
